theory Spec2Isabelle
  imports Complex_Main "HOL-Library.Log_Nat"
begin

section \<open>Values shared by the pages\<close>

text \<open>
  JavaScript strings are modelled as \<^typ>\<open>string\<close>, a value that may be \<open>null\<close> or
  \<open>undefined\<close> as an \<^typ>\<open>string option\<close>, and a JavaScript number as the rational it
  stands for; where the code computes with numbers, every operation rounds to the
  nearest double (see the averages of the grades page).
\<close>

text \<open>The truthiness test \<open>!s\<close> of a possibly missing string: missing or empty.\<close>

definition falsy :: "string option \<Rightarrow> bool" where
  "falsy s = (case s of None \<Rightarrow> True | Some t \<Rightarrow> t = [])"

text \<open>\<open>a || b\<close> on a possibly missing string with a string default.\<close>

definition or_else :: "string option \<Rightarrow> string \<Rightarrow> string" where
  "or_else a b = (case a of None \<Rightarrow> b | Some t \<Rightarrow> if t = [] then b else t)"

section \<open>Time-of-day strings and the \<open>Date\<close> values built from them\<close>

text \<open>
  \<open>new Date(`2000-01-01T${t}`)\<close> is modelled for the time formats of the ECMAScript
  date-time string format without a zone offset, \<open>HH:mm\<close> and \<open>HH:mm:ss\<close>.  The time
  value is counted in milliseconds from local midnight of 2000-01-01 (both dates of a
  comparison are built on that same day), and \<open>None\<close> is the \<open>NaN\<close> time value of an
  Invalid Date.  Strings outside the two formats are taken to be invalid.
\<close>

definition digit_val :: "char \<Rightarrow> nat option" where
  "digit_val c =
     (let n = (of_char c :: nat) in if 48 \<le> n \<and> n \<le> 57 then Some (n - 48) else None)"

definition two_digits :: "char \<Rightarrow> char \<Rightarrow> nat option" where
  "two_digits a b =
     (case digit_val a of None \<Rightarrow> None
      | Some x \<Rightarrow> (case digit_val b of None \<Rightarrow> None | Some y \<Rightarrow> Some (10 * x + y)))"

definition time_value :: "nat option \<Rightarrow> nat option \<Rightarrow> nat option \<Rightarrow> nat option" where
  "time_value hh mm ss =
     (case hh of None \<Rightarrow> None | Some h \<Rightarrow>
      (case mm of None \<Rightarrow> None | Some m \<Rightarrow>
       (case ss of None \<Rightarrow> None | Some s \<Rightarrow>
          if (h < 24 \<and> m < 60 \<and> s < 60) \<or> (h = 24 \<and> m = 0 \<and> s = 0)
          then Some (((h * 60 + m) * 60 + s) * 1000) else None)))"

fun parse_time :: "string \<Rightarrow> nat option" where
  "parse_time [h1, h2, c, m1, m2] =
     (if c = CHR '':'' then time_value (two_digits h1 h2) (two_digits m1 m2) (Some 0)
      else None)"
| "parse_time [h1, h2, c, m1, m2, d, s1, s2] =
     (if c = CHR '':'' \<and> d = CHR '':''
      then time_value (two_digits h1 h2) (two_digits m1 m2) (two_digits s1 s2)
      else None)"
| "parse_time _ = None"

text \<open>\<open>a > b\<close> on two dates compares the time values; with a \<open>NaN\<close> it is false.\<close>

definition date_gt :: "nat option \<Rightarrow> nat option \<Rightarrow> bool" where
  "date_gt a b = (case a of None \<Rightarrow> False | Some x \<Rightarrow> (case b of None \<Rightarrow> False | Some y \<Rightarrow> y < x))"

text \<open>\<open>new Date(d.getTime() + ms)\<close>.\<close>

definition add_ms :: "nat option \<Rightarrow> nat \<Rightarrow> nat option" where
  "add_ms d ms = map_option (\<lambda>t. t + ms) d"

text \<open>The constant \<open>ATTENDANCE_RULES.LATE_THRESHOLD_MINUTES\<close>.\<close>

definition LATE_THRESHOLD_MINUTES :: nat where
  "LATE_THRESHOLD_MINUTES = 15"

text \<open>\<open>isLate\<close> of the attendance page.\<close>

definition isLate :: "string option \<Rightarrow> string option \<Rightarrow> bool" where
  "isLate timeIn classStartTime =
     (if falsy timeIn \<or> falsy classStartTime then False
      else
        let timeInDate = parse_time (the timeIn);
            startTimeDate = parse_time (the classStartTime);
            lateThreshold = add_ms startTimeDate (15 * 60000)
        in date_gt timeInDate lateThreshold)"

text \<open>\<open>isLateAttendance\<close> of the shared utilities.\<close>

definition isLateAttendance :: "string option \<Rightarrow> string option \<Rightarrow> bool" where
  "isLateAttendance timeIn classStartTime =
     (if falsy timeIn \<or> falsy classStartTime then False
      else
        let timeInDate = parse_time (the timeIn);
            startTimeDate = parse_time (the classStartTime);
            lateThreshold = add_ms startTimeDate (LATE_THRESHOLD_MINUTES * 60000)
        in date_gt timeInDate lateThreshold)"

text \<open>
  A time of day written the way \<open>getCurrentTime\<close> formats the clock (two digits for
  the hour and two for the minute), and the way the store returns a \<open>time\<close> column
  (with seconds).  They name the inputs of the lateness theorems.
\<close>

definition digit_char :: "nat \<Rightarrow> char" where
  "digit_char n = char_of (48 + n)"

definition hhmm :: "nat \<Rightarrow> nat \<Rightarrow> string" where
  "hhmm h m = [digit_char (h div 10), digit_char (h mod 10), CHR '':'',
               digit_char (m div 10), digit_char (m mod 10)]"

definition hhmmss :: "nat \<Rightarrow> nat \<Rightarrow> nat \<Rightarrow> string" where
  "hhmmss h m s = hhmm h m @ [CHR '':'', digit_char (s div 10), digit_char (s mod 10)]"

section \<open>The data store\<close>

text \<open>
  The tables of the relational store the pages write to, with the columns the
  operations below read or write (the \<open>created_at\<close> and \<open>updated_at\<close> time stamps
  are left out).  In the attendance and grades pages an insertion whose result the
  code never reads (audit log, notification) is taken to be accepted by the store.
\<close>

datatype UserRole = admin | teacher | parent

datatype AttendanceStatus = present | absent | late | excused

text \<open>The JSON values stored in the audit log.\<close>

datatype json = JNull | JNum rat | JStr string

record audit_log =
  au_user_id :: "string option"
  au_action :: string
  au_entity_type :: string
  au_entity_id :: string
  au_old_values :: "(string \<times> json) list option"
  au_new_values :: "(string \<times> json) list option"

record notification =
  nt_recipient_id :: string
  nt_type :: string
  nt_title :: string
  nt_message :: string
  nt_sender_id :: "string option"

record attendance_row =
  att_id :: string
  att_pupil_id :: string
  att_subject_id :: string
  att_date :: string
  att_time_in :: "string option"
  att_status :: AttendanceStatus
  att_remarks :: "string option"
  att_excuse_reason :: "string option"
  att_teacher_id :: "string option"

record grade_row =
  gr_id :: string
  gr_pupil_id :: string
  gr_subject_id :: string
  gr_quarter :: nat
  gr_final_grade :: rat
  gr_teacher_id :: "string option"

record pupil_row =
  pu_id :: string
  pu_first_name :: string
  pu_last_name :: string
  pu_middle_name :: "string option"
  pu_grade_level :: nat
  pu_section :: string
  pu_archived :: bool
  pu_parent_id :: "string option"

record subject_row =
  su_id :: string
  su_name :: string
  su_start_time :: "string option"

record database =
  attendance :: "attendance_row list"
  grades :: "grade_row list"
  pupils_table :: "pupil_row list"
  audit_logs :: "audit_log list"
  notifications :: "notification list"

text \<open>What a handler shows to its caller: \<open>toast.success\<close> or \<open>toast.error\<close>.\<close>

datatype toast = toast_success string | toast_error string

text \<open>The signed-in user of the \<open>useAuth\<close> context, and \<open>isRole\<close>.\<close>

record auth_user =
  user_id :: string
  user_role :: UserRole

definition isRole :: "auth_user option \<Rightarrow> UserRole \<Rightarrow> bool" where
  "isRole user r = (case user of None \<Rightarrow> False | Some u \<Rightarrow> user_role u = r)"

text \<open>\<open>user?.id\<close>.\<close>

definition user_id_opt :: "auth_user option \<Rightarrow> string option" where
  "user_id_opt user = map_option user_id user"

section \<open>The attendance page\<close>

text \<open>
  The object a handler passes to \<open>upsert\<close>.  The handlers build objects with different
  keys: a column whose key is absent (or whose value is \<open>undefined\<close>, which is dropped
  when the object is serialised) is \<open>None\<close> here; \<open>time_in\<close> can also be present
  with the value \<open>null\<close>.
\<close>

record attendance_data =
  ad_pupil_id :: string
  ad_subject_id :: string
  ad_date :: string
  ad_time_in :: "string option option"
  ad_status :: AttendanceStatus
  ad_remarks :: "string option"
  ad_excuse_reason :: "string option"
  ad_teacher_id :: "string option"

text \<open>
  \<open>upsert(data, {onConflict: 'pupil_id,subject_id,date'})\<close> as the store performs it: a
  row with the same key takes the columns of the object and keeps its other columns;
  without such a row a new row is inserted, its other columns \<open>null\<close>.  The result is
  the id of the affected row and the new table.
\<close>

definition att_key :: "attendance_row \<Rightarrow> string \<times> string \<times> string" where
  "att_key r = (att_pupil_id r, att_subject_id r, att_date r)"

definition ad_key :: "attendance_data \<Rightarrow> string \<times> string \<times> string" where
  "ad_key d = (ad_pupil_id d, ad_subject_id d, ad_date d)"

definition set_columns :: "attendance_data \<Rightarrow> attendance_row \<Rightarrow> attendance_row" where
  "set_columns d r =
     r\<lparr> att_time_in := (case ad_time_in d of None \<Rightarrow> att_time_in r | Some t \<Rightarrow> t),
        att_status := ad_status d,
        att_remarks := (case ad_remarks d of None \<Rightarrow> att_remarks r | Some x \<Rightarrow> Some x),
        att_excuse_reason :=
          (case ad_excuse_reason d of None \<Rightarrow> att_excuse_reason r | Some x \<Rightarrow> Some x),
        att_teacher_id :=
          (case ad_teacher_id d of None \<Rightarrow> att_teacher_id r | Some x \<Rightarrow> Some x) \<rparr>"

definition inserted_row :: "string \<Rightarrow> attendance_data \<Rightarrow> attendance_row" where
  "inserted_row new_id d =
     \<lparr> att_id = new_id, att_pupil_id = ad_pupil_id d, att_subject_id = ad_subject_id d,
       att_date = ad_date d,
       att_time_in = (case ad_time_in d of None \<Rightarrow> None | Some t \<Rightarrow> t),
       att_status = ad_status d, att_remarks = ad_remarks d,
       att_excuse_reason = ad_excuse_reason d, att_teacher_id = ad_teacher_id d \<rparr>"

definition upsert_attendance ::
  "string \<Rightarrow> attendance_data \<Rightarrow> attendance_row list \<Rightarrow> string \<times> attendance_row list" where
  "upsert_attendance new_id d rows =
     (case find (\<lambda>r. att_key r = ad_key d) rows of
        Some r0 \<Rightarrow> (att_id r0, map (\<lambda>r. if att_key r = ad_key d then set_columns d r else r) rows)
      | None \<Rightarrow> (new_id, rows @ [inserted_row new_id d]))"

text \<open>The rows stored at a key.\<close>

definition rows_at :: "string \<times> string \<times> string \<Rightarrow> database \<Rightarrow> attendance_row list" where
  "rows_at k db = filter (\<lambda>r. att_key r = k) (attendance db)"

text \<open>The state of the page component that the handlers read.\<close>

record attendance_page =
  user :: "auth_user option"
  selectedSubject :: string
  selectedDate :: string
  subjects :: "subject_row list"
  pupils :: "pupil_row list"

text \<open>
  What the outside gives to one call: the clock as \<open>getCurrentTime\<close> formats it, the
  error of the upsert if it fails, and the id the store gives to an inserted row.
\<close>

record attendance_env =
  now :: string
  upsert_error :: "string option"
  new_row_id :: string

definition status_name :: "AttendanceStatus \<Rightarrow> string" where
  "status_name s = (case s of present \<Rightarrow> ''present'' | absent \<Rightarrow> ''absent''
                    | late \<Rightarrow> ''late'' | excused \<Rightarrow> ''excused'')"

definition opt_json :: "string option \<Rightarrow> json" where
  "opt_json v = (case v of None \<Rightarrow> JNull | Some x \<Rightarrow> JStr x)"

text \<open>The keys of \<open>attendanceData\<close> that survive serialisation, for the audit log.\<close>

definition attendance_json :: "attendance_data \<Rightarrow> (string \<times> json) list" where
  "attendance_json d =
     [(''pupil_id'', JStr (ad_pupil_id d)), (''subject_id'', JStr (ad_subject_id d)),
      (''date'', JStr (ad_date d))]
     @ (case ad_time_in d of None \<Rightarrow> [] | Some t \<Rightarrow> [(''time_in'', opt_json t)])
     @ [(''status'', JStr (status_name (ad_status d)))]
     @ (case ad_remarks d of None \<Rightarrow> [] | Some x \<Rightarrow> [(''remarks'', JStr x)])
     @ (case ad_excuse_reason d of None \<Rightarrow> [] | Some x \<Rightarrow> [(''excuse_reason'', JStr x)])
     @ (case ad_teacher_id d of None \<Rightarrow> [] | Some x \<Rightarrow> [(''teacher_id'', JStr x)])"

definition sendAbsenceNotification :: "attendance_page \<Rightarrow> string \<Rightarrow> database \<Rightarrow> database" where
  "sendAbsenceNotification pg pupilId db =
     (case find (\<lambda>p. pu_id p = pupilId) (pupils pg) of
        None \<Rightarrow> db
      | Some pupil \<Rightarrow>
          if falsy (pu_parent_id pupil) then db
          else
            let subject = find (\<lambda>s. su_id s = selectedSubject pg) (subjects pg);
                subject_name = (case subject of None \<Rightarrow> ''class''
                                | Some s \<Rightarrow> or_else (Some (su_name s)) ''class'')
            in db\<lparr> notifications := notifications db @
                 [\<lparr> nt_recipient_id = the (pu_parent_id pupil),
                    nt_type = ''attendance_alert'',
                    nt_title = ''Attendance Alert'',
                    nt_message = ''Your child '' @ pu_first_name pupil @ '' '' @ pu_last_name pupil
                      @ '' was marked absent in '' @ subject_name @ '' today (''
                      @ selectedDate pg @ '').'',
                    nt_sender_id = user_id_opt (user pg) \<rparr>] \<rparr>)"

definition markAttendance ::
  "attendance_page \<Rightarrow> attendance_env \<Rightarrow> string \<Rightarrow> AttendanceStatus \<Rightarrow> string option
     \<Rightarrow> string option \<Rightarrow> database \<Rightarrow> toast \<times> database" where
  "markAttendance pg env pupilId status timeIn remarks db =
     (if user pg = None \<or> isRole (user pg) parent
      then (toast_error ''You do not have permission to mark attendance'', db)
      else if selectedSubject pg = []
      then (toast_error ''Please select a subject first'', db)
      else
        let currentTime = or_else timeIn (now env);
            subject = find (\<lambda>s. su_id s = selectedSubject pg) (subjects pg);
            start_time = (case subject of None \<Rightarrow> None | Some s \<Rightarrow> su_start_time s);
            finalStatus =
              (if status = present \<and> \<not> falsy start_time
               then (if isLate (Some currentTime) start_time then late else status)
               else status);
            attendanceData =
              \<lparr> ad_pupil_id = pupilId, ad_subject_id = selectedSubject pg,
                ad_date = selectedDate pg,
                ad_time_in = Some (if status = present \<or> status = late
                                   then Some currentTime else None),
                ad_status = finalStatus, ad_remarks = remarks,
                ad_excuse_reason = None, ad_teacher_id = user_id_opt (user pg) \<rparr>
        in case upsert_error env of
             Some e \<Rightarrow> (toast_error (or_else (Some e) ''Failed to mark attendance''), db)
           | None \<Rightarrow>
               let (row_id, rows) = upsert_attendance (new_row_id env) attendanceData (attendance db);
                   db1 = db\<lparr> attendance := rows \<rparr>;
                   db2 = db1\<lparr> audit_logs := audit_logs db1 @
                           [\<lparr> au_user_id = user_id_opt (user pg),
                              au_action = ''mark_attendance'',
                              au_entity_type = ''attendance'',
                              au_entity_id = row_id,
                              au_old_values = None,
                              au_new_values = Some (attendance_json attendanceData) \<rparr>] \<rparr>;
                   db3 = (if finalStatus = absent then sendAbsenceNotification pg pupilId db2
                          else db2)
               in (toast_success (''Attendance marked as '' @ status_name finalStatus), db3))"

text \<open>\<open>String.prototype.trim\<close> on the white space of the 8-bit character range.\<close>

definition is_space :: "char \<Rightarrow> bool" where
  "is_space c = (of_char c \<in> {9, 10, 11, 12, 13, 32, 160 :: nat})"

definition trim :: "string \<Rightarrow> string" where
  "trim s = rev (dropWhile is_space (rev (dropWhile is_space s)))"

definition handleExcuseAbsence ::
  "attendance_page \<Rightarrow> attendance_env \<Rightarrow> string \<Rightarrow> string \<Rightarrow> database \<Rightarrow> toast \<times> database" where
  "handleExcuseAbsence pg env pupilId excuseReason db =
     (if trim excuseReason = []
      then (toast_error ''Please provide a reason for the excuse'', db)
      else
        let attendanceData =
              \<lparr> ad_pupil_id = pupilId, ad_subject_id = selectedSubject pg,
                ad_date = selectedDate pg, ad_time_in = None, ad_status = excused,
                ad_remarks = None, ad_excuse_reason = Some excuseReason,
                ad_teacher_id = user_id_opt (user pg) \<rparr>
        in case upsert_error env of
             Some e \<Rightarrow> (toast_error (or_else (Some e) ''Failed to excuse absence''), db)
           | None \<Rightarrow>
               let (row_id, rows) = upsert_attendance (new_row_id env) attendanceData (attendance db);
                   db1 = db\<lparr> attendance := rows \<rparr>;
                   db2 = db1\<lparr> audit_logs := audit_logs db1 @
                           [\<lparr> au_user_id = user_id_opt (user pg),
                              au_action = ''excuse_absence'',
                              au_entity_type = ''attendance'',
                              au_entity_id = row_id,
                              au_old_values = Some [(''status'', JStr ''absent'')],
                              au_new_values = Some [(''status'', JStr ''excused''),
                                                    (''excuse_reason'', JStr excuseReason)] \<rparr>] \<rparr>
               in (toast_success ''Absence excused successfully'', db2))"

text \<open>
  The object \<open>attendanceData\<close> that \<open>markAttendance\<close> builds, as a function of the
  inputs of the call; the lemmas about the stored row are stated with it.
\<close>

definition mark_data :: "attendance_page \<Rightarrow> attendance_env \<Rightarrow> string \<Rightarrow> AttendanceStatus
   \<Rightarrow> string option \<Rightarrow> string option \<Rightarrow> attendance_data" where
  "mark_data pg env pupilId status timeIn remarks =
     (let currentTime = or_else timeIn (now env);
          start_time = (case find (\<lambda>s. su_id s = selectedSubject pg) (subjects pg) of
                          None \<Rightarrow> None | Some s \<Rightarrow> su_start_time s)
      in \<lparr> ad_pupil_id = pupilId, ad_subject_id = selectedSubject pg,
           ad_date = selectedDate pg,
           ad_time_in = Some (if status = present \<or> status = late
                              then Some currentTime else None),
           ad_status = (if status = present \<and> \<not> falsy start_time
               then (if isLate (Some currentTime) start_time then late else status)
               else status),
           ad_remarks = remarks,
           ad_excuse_reason = None, ad_teacher_id = user_id_opt (user pg) \<rparr>)"

text \<open>
  A teacher's page for the subject \<open>math\<close>, whose class starts at 08:00, on
  2024-06-03; a clock at 08:16; an empty store, and a store where pupil \<open>p1\<close> is
  marked absent for that class.
\<close>

definition example_page :: attendance_page where
  "example_page =
     \<lparr> user = Some \<lparr> user_id = ''t1'', user_role = teacher \<rparr>,
       selectedSubject = ''math'', selectedDate = ''2024-06-03'',
       subjects = [\<lparr> su_id = ''math'', su_name = ''Mathematics'',
                     su_start_time = Some ''08:00:00'' \<rparr>],
       pupils = [] \<rparr>"

definition example_env :: attendance_env where
  "example_env = \<lparr> now = ''08:16'', upsert_error = None, new_row_id = ''a1'' \<rparr>"

definition empty_database :: database where
  "empty_database = \<lparr> attendance = [], grades = [], pupils_table = [], audit_logs = [],
                       notifications = [] \<rparr>"

definition absent_database :: database where
  "absent_database =
     empty_database\<lparr> attendance :=
       [\<lparr> att_id = ''a0'', att_pupil_id = ''p1'', att_subject_id = ''math'',
          att_date = ''2024-06-03'', att_time_in = None, att_status = absent,
          att_remarks = None, att_excuse_reason = None, att_teacher_id = Some ''t1'' \<rparr>] \<rparr>"

section \<open>The grades page\<close>

text \<open>The entry form's declared schema: \<open>z.number().min(60).max(100)\<close> for each grade.\<close>

definition gradeSchema :: "(string \<times> rat) list \<Rightarrow> bool" where
  "gradeSchema gs = list_all (\<lambda>(pupil_id, final_grade). 60 \<le> final_grade \<and> final_grade \<le> 100) gs"

text \<open>The constants \<open>VALIDATION_RULES.MIN_GRADE\<close> and \<open>VALIDATION_RULES.MAX_GRADE\<close>.\<close>

definition MIN_GRADE :: rat where
  "MIN_GRADE = 0"

definition MAX_GRADE :: rat where
  "MAX_GRADE = 100"

text \<open>
  \<open>parseInt\<close> on a string that starts with decimal digits; \<open>None\<close> is \<open>NaN\<close>.  (Leading
  white space, a sign and the prefix \<open>0x\<close> are not modelled: the quarter comes from a
  select with the values 1 to 4.)
\<close>

definition is_digit :: "char \<Rightarrow> bool" where
  "is_digit c = (48 \<le> (of_char c :: nat) \<and> (of_char c :: nat) \<le> 57)"

definition parseInt :: "string \<Rightarrow> nat option" where
  "parseInt s =
     (let ds = takeWhile is_digit s
      in if ds = [] then None else Some (foldl (\<lambda>n c. 10 * n + (of_char c - 48)) 0 ds))"

text \<open>
  The state of the page component: the signed-in user, the selections, and
  \<open>classGrades\<close>, an object from pupil ids to grades, kept in insertion order as
  \<open>Object.entries\<close> lists it.
\<close>

record grades_page =
  gp_user :: "auth_user option"
  gp_selectedSubject :: string
  gp_selectedQuarter :: string
  classGrades :: "(string \<times> rat) list"
  gp_pupils :: "pupil_row list"

text \<open>\<open>handleGradeChange\<close>: \<open>{...prev, [pupilId]: grade}\<close>.\<close>

fun set_entry :: "string \<Rightarrow> rat \<Rightarrow> (string \<times> rat) list \<Rightarrow> (string \<times> rat) list" where
  "set_entry k v [] = [(k, v)]"
| "set_entry k v ((k', v') # es) = (if k' = k then (k, v) # es else (k', v') # set_entry k v es)"

definition handleGradeChange :: "string \<Rightarrow> rat \<Rightarrow> grades_page \<Rightarrow> grades_page" where
  "handleGradeChange pupilId grade pg = pg\<lparr> classGrades := set_entry pupilId grade (classGrades pg) \<rparr>"

text \<open>
  What the outside gives to one save, for each pupil: the error of the existence
  check if it fails other than by finding no single row, the error of the update or
  insert if it fails, and the id the store gives to an inserted row.
\<close>

record grades_env =
  select_error :: "string \<Rightarrow> string option"
  write_error :: "string \<Rightarrow> string option"
  new_grade_id :: "string \<Rightarrow> string"

text \<open>\<open>.single()\<close>: the row when exactly one matches, otherwise no data (PGRST116).\<close>

definition single :: "'a list \<Rightarrow> 'a option" where
  "single rows = (case rows of [r] \<Rightarrow> Some r | _ \<Rightarrow> None)"

definition grade_rows_at :: "string \<Rightarrow> string \<Rightarrow> nat \<Rightarrow> database \<Rightarrow> grade_row list" where
  "grade_rows_at pupilId subjectId quarter db =
     filter (\<lambda>g. gr_pupil_id g = pupilId \<and> gr_subject_id g = subjectId \<and> gr_quarter g = quarter)
       (grades db)"

text \<open>
  The body of the loop of \<open>saveClassGrades\<close> for one entry of \<open>gradesToSave\<close>;
  \<open>Inl\<close> is the error thrown.  A quarter that \<open>parseInt\<close> could not read is refused by
  the store's existence check.
\<close>

definition save_entry ::
  "grades_page \<Rightarrow> grades_env \<Rightarrow> string \<times> rat \<Rightarrow> database \<Rightarrow> string + database" where
  "save_entry pg env entry db =
     (let pupilId = fst entry; finalGrade = snd entry in
      case parseInt (gp_selectedQuarter pg) of
        None \<Rightarrow> Inl ''invalid input syntax for type integer''
      | Some quarter \<Rightarrow>
          (case select_error env pupilId of
             Some e \<Rightarrow> Inl e
           | None \<Rightarrow>
               (case single (grade_rows_at pupilId (gp_selectedSubject pg) quarter db) of
                  Some existingGrade \<Rightarrow>
                    (case write_error env pupilId of
                       Some e \<Rightarrow> Inl e
                     | None \<Rightarrow>
                         Inr (db\<lparr> grades :=
                                map (\<lambda>g. if gr_id g = gr_id existingGrade
                                         then g\<lparr> gr_pupil_id := pupilId,
                                                gr_subject_id := gp_selectedSubject pg,
                                                gr_quarter := quarter,
                                                gr_final_grade := finalGrade,
                                                gr_teacher_id :=
                                                  (case user_id_opt (gp_user pg) of
                                                     None \<Rightarrow> gr_teacher_id g
                                                   | Some t \<Rightarrow> Some t) \<rparr>
                                         else g) (grades db),
                               audit_logs := audit_logs db @
                                 [\<lparr> au_user_id = user_id_opt (gp_user pg),
                                    au_action = ''update_grade'',
                                    au_entity_type = ''grades'',
                                    au_entity_id = gr_id existingGrade,
                                    au_old_values =
                                      Some [(''final_grade'', JNum (gr_final_grade existingGrade))],
                                    au_new_values = Some [(''final_grade'', JNum finalGrade)] \<rparr>] \<rparr>))
                | None \<Rightarrow>
                    (case write_error env pupilId of
                       Some e \<Rightarrow> Inl e
                     | None \<Rightarrow>
                         Inr (db\<lparr> grades := grades db @
                                 [\<lparr> gr_id = new_grade_id env pupilId, gr_pupil_id = pupilId,
                                    gr_subject_id = gp_selectedSubject pg, gr_quarter = quarter,
                                    gr_final_grade = finalGrade,
                                    gr_teacher_id = user_id_opt (gp_user pg) \<rparr>],
                               audit_logs := audit_logs db @
                                 [\<lparr> au_user_id = user_id_opt (gp_user pg),
                                    au_action = ''create_grade'',
                                    au_entity_type = ''grades'',
                                    au_entity_id = new_grade_id env pupilId,
                                    au_old_values = None,
                                    au_new_values = Some
                                      ([(''pupil_id'', JStr pupilId),
                                        (''subject_id'', JStr (gp_selectedSubject pg)),
                                        (''quarter'', JNum (of_nat quarter)),
                                        (''final_grade'', JNum finalGrade)]
                                       @ (case user_id_opt (gp_user pg) of None \<Rightarrow> []
                                          | Some t \<Rightarrow> [(''teacher_id'', JStr t)])) \<rparr>] \<rparr>)))))"

text \<open>The loop: it stops at the first error, and what was written before stays.\<close>

fun save_entries ::
  "grades_page \<Rightarrow> grades_env \<Rightarrow> (string \<times> rat) list \<Rightarrow> database \<Rightarrow> string option \<times> database" where
  "save_entries pg env [] db = (None, db)"
| "save_entries pg env (entry # entries) db =
     (case save_entry pg env entry db of
        Inl e \<Rightarrow> (Some e, db)
      | Inr db' \<Rightarrow> save_entries pg env entries db')"

definition saveClassGrades :: "grades_page \<Rightarrow> grades_env \<Rightarrow> database \<Rightarrow> toast \<times> database" where
  "saveClassGrades pg env db =
     (if gp_selectedSubject pg = [] \<or> gp_selectedQuarter pg = []
      then (toast_error ''Please select subject and quarter'', db)
      else
        let gradesToSave = filter (\<lambda>(_, grade). grade > 0) (classGrades pg)
        in case save_entries pg env gradesToSave db of
             (Some e, db') \<Rightarrow> (toast_error (or_else (Some e) ''Failed to save grades''), db')
           | (None, db') \<Rightarrow> (toast_success ''Class grades saved successfully'', db'))"

text \<open>
  Double-precision arithmetic.  A finite double is a rational \<open>m * 2 ^ e\<close> with
  \<open>\<bar>m\<bar> < 2 ^ 53\<close> and \<open>e \<ge> - 1074\<close>; \<open>to_double\<close> rounds a rational to the nearest
  double, a tie going to the even significand, as IEEE 754 arithmetic rounds the
  exact result of each operation.  (Overflow to infinity, at \<open>2 ^ 1024\<close>, is outside
  the model.)  \<open>ilog2 a\<close> is the integer \<open>e\<close> with \<open>2 ^ e \<le> a < 2 ^ (e + 1)\<close>, for a
  positive \<open>a\<close>.
\<close>

definition ilog2 :: "rat \<Rightarrow> int" where
  "ilog2 a = (if 1 \<le> a then bitlen \<lfloor>a\<rfloor> - 1 else - bitlen (\<lceil>1 / a\<rceil> - 1))"

definition pow2 :: "int \<Rightarrow> rat" where
  "pow2 e = (if 0 \<le> e then 2 ^ nat e else 1 / 2 ^ nat (- e))"

definition round_half_even :: "rat \<Rightarrow> int" where
  "round_half_even q =
     (let f = \<lfloor>q\<rfloor>; d = q - of_int f
      in if d < 1 / 2 then f else if 1 / 2 < d then f + 1 else if even f then f else f + 1)"

definition to_double :: "rat \<Rightarrow> rat" where
  "to_double x =
     (if x = 0 then 0
      else
        let a = \<bar>x\<bar>;
            e = max (ilog2 a - 52) (- 1074);
            r = of_int (round_half_even (a / pow2 e)) * pow2 e
        in if 0 < x then r else - r)"

text \<open>
  The operators \<open>+\<close>, \<open>*\<close> and \<open>/\<close> on numbers, \<open>Math.round\<close> (the nearest integer, a
  half going towards plus infinity; exact), and the number that a numeral in an
  answer of the store is read as.
\<close>

definition js_add :: "rat \<Rightarrow> rat \<Rightarrow> rat" where
  "js_add a b = to_double (a + b)"

definition js_mul :: "rat \<Rightarrow> rat \<Rightarrow> rat" where
  "js_mul a b = to_double (a * b)"

definition js_div :: "rat \<Rightarrow> rat \<Rightarrow> rat" where
  "js_div a b = to_double (a / b)"

definition Math_round :: "rat \<Rightarrow> rat" where
  "Math_round x = of_int \<lfloor>x + 1 / 2\<rfloor>"

definition js_number :: "rat \<Rightarrow> rat" where
  "js_number x = to_double x"

text \<open>\<open>Math.round(x * 100) / 100\<close>.\<close>

definition round2 :: "rat \<Rightarrow> rat" where
  "round2 x = js_div (Math_round (js_mul x 100)) 100"

text \<open>\<open>calculatePupilQuarterlyAverage\<close> of the shared utilities (the read succeeding).\<close>

definition calculatePupilQuarterlyAverage :: "database \<Rightarrow> string \<Rightarrow> nat \<Rightarrow> rat option" where
  "calculatePupilQuarterlyAverage db pupilId quarter =
     (let grades = filter (\<lambda>g. gr_pupil_id g = pupilId \<and> gr_quarter g = quarter) (grades db)
      in if grades = [] then None
         else Some (round2
                (js_div (foldl (\<lambda>sum grade. js_add sum (js_number (gr_final_grade grade))) 0 grades)
                        (of_nat (length grades)))))"

record ClassAverages =
  ca_pupil_id :: string
  ca_pupil_name :: string
  q1_avg :: "rat option"
  q2_avg :: "rat option"
  q3_avg :: "rat option"
  q4_avg :: "rat option"
  final_avg :: "rat option"

text \<open>
  The body of the outer loop of \<open>calculateClassAverages\<close> for one pupil.  The test
  \<open>finalAvg ? \<dots> : null\<close> is false for \<open>null\<close> and for the number 0.
\<close>

definition pupil_averages :: "database \<Rightarrow> pupil_row \<Rightarrow> ClassAverages" where
  "pupil_averages db pupil =
     (let quarterAverages =
            map (\<lambda>quarter.
                   let pupilGrades = filter (\<lambda>g. gr_pupil_id g = pu_id pupil \<and> gr_quarter g = quarter)
                                       (grades db)
                   in if pupilGrades \<noteq> []
                      then Some (round2
                             (js_div (foldl (\<lambda>sum g. js_add sum (js_number (gr_final_grade g))) 0
                                        pupilGrades)
                                     (of_nat (length pupilGrades))))
                      else None)
                [1, 2, 3, 4];
          validQuarters = map the (filter (\<lambda>avg. avg \<noteq> None) quarterAverages);
          finalAvg = (if length validQuarters > 0
                      then Some (js_div (foldl (\<lambda>sum avg. js_add sum avg) 0 validQuarters)
                                        (of_nat (length validQuarters)))
                      else None)
      in \<lparr> ca_pupil_id = pu_id pupil,
           ca_pupil_name =
             trim (pu_last_name pupil @ '', '' @ pu_first_name pupil @ '' ''
                   @ (if falsy (pu_middle_name pupil) then []
                      else [hd (the (pu_middle_name pupil))] @ ''.'')),
           q1_avg = quarterAverages ! 0,
           q2_avg = quarterAverages ! 1,
           q3_avg = quarterAverages ! 2,
           q4_avg = quarterAverages ! 3,
           final_avg = (case finalAvg of None \<Rightarrow> None
                        | Some f \<Rightarrow> if f = 0 then None else Some (round2 f)) \<rparr>)"

text \<open>
  \<open>calculateClassAverages\<close>: the new value of the \<open>classAverages\<close> state, which stays as
  it is when the page has no pupils.
\<close>

definition calculateClassAverages ::
  "grades_page \<Rightarrow> database \<Rightarrow> ClassAverages list \<Rightarrow> ClassAverages list" where
  "calculateClassAverages pg db classAverages =
     (if gp_pupils pg = [] then classAverages
      else map (pupil_averages db) (gp_pupils pg))"

text \<open>
  A grades page with the subject \<open>math\<close> and the first quarter selected, a store that
  accepts every read and write, a pupil, and two sets of grades of that pupil: 85, 85
  and 86 in the first three quarters; 80 in the first quarter and 80, 80 and 81 in
  the third.
\<close>

definition example_grades_page :: grades_page where
  "example_grades_page =
     \<lparr> gp_user = Some \<lparr> user_id = ''t1'', user_role = teacher \<rparr>,
       gp_selectedSubject = ''math'', gp_selectedQuarter = ''1'',
       classGrades = [], gp_pupils = [] \<rparr>"

definition example_grades_env :: grades_env where
  "example_grades_env =
     \<lparr> select_error = (\<lambda>p. None), write_error = (\<lambda>p. None),
       new_grade_id = (\<lambda>p. ''g-'' @ p) \<rparr>"

definition example_pupil :: pupil_row where
  "example_pupil =
     \<lparr> pu_id = ''p1'', pu_first_name = ''Ana'', pu_last_name = ''Cruz'',
       pu_middle_name = None, pu_grade_level = 3, pu_section = ''A'',
       pu_archived = False, pu_parent_id = None \<rparr>"

definition grade_of :: "string \<Rightarrow> string \<Rightarrow> nat \<Rightarrow> rat \<Rightarrow> grade_row" where
  "grade_of i subject quarter g =
     \<lparr> gr_id = i, gr_pupil_id = ''p1'', gr_subject_id = subject, gr_quarter = quarter,
       gr_final_grade = g, gr_teacher_id = Some ''t1'' \<rparr>"

definition three_quarters_database :: database where
  "three_quarters_database =
     empty_database\<lparr> grades :=
       [grade_of ''g1'' ''math'' 1 85, grade_of ''g2'' ''math'' 2 85,
        grade_of ''g3'' ''math'' 3 86] \<rparr>"

definition two_quarters_database :: database where
  "two_quarters_database =
     empty_database\<lparr> grades :=
       [grade_of ''g1'' ''math'' 1 80, grade_of ''g2'' ''math'' 3 80,
        grade_of ''g3'' ''science'' 3 80, grade_of ''g4'' ''english'' 3 81] \<rparr>"

section \<open>The pupils page: promotion\<close>

text \<open>
  The store runs an update as one statement: it either fails as a whole and changes
  nothing, or is applied to every row that matches.  Which ids the store refuses (a
  text that is not a valid key value, for instance) is given from outside, and so is
  which audit entries it accepts: the page writes the text \<open>current_user_id\<close> as the
  user of its entries, and never reads the result of the insertion.
\<close>

record store_env =
  refused_id :: "string \<Rightarrow> bool"
  accepts_audit :: "audit_log \<Rightarrow> bool"

definition update_pupils_in ::
  "store_env \<Rightarrow> string list \<Rightarrow> (pupil_row \<Rightarrow> pupil_row) \<Rightarrow> pupil_row list
     \<Rightarrow> string + pupil_row list" where
  "update_pupils_in env ids f rows =
     (if list_ex (refused_id env) ids then Inl ''invalid input syntax for type uuid''
      else Inr (map (\<lambda>r. if pu_id r \<in> set ids then f r else r) rows))"

text \<open>
  The state of the page component; the set of selected pupils is kept as the list
  \<open>Array.from\<close> makes of it.
\<close>

record pupils_page =
  promotionFromGrade :: "nat option"
  promotionToGrade :: "nat option"
  promotionToSection :: string
  selectedPupilsForPromotion :: "string list"

function show_nat :: "nat \<Rightarrow> string" where
  "show_nat n = (if n < 10 then [digit_char n] else show_nat (n div 10) @ [digit_char (n mod 10)])"
  by pat_completeness auto
termination
  by (relation "measure id") auto

declare show_nat.simps [simp del]

definition grade_json :: "nat option \<Rightarrow> json" where
  "grade_json g = (case g of None \<Rightarrow> JNull | Some n \<Rightarrow> JNum (of_nat n))"

definition promotion_audit :: "pupils_page \<Rightarrow> string \<Rightarrow> audit_log" where
  "promotion_audit pg pupilId =
     \<lparr> au_user_id = Some ''current_user_id'', au_action = ''promote_pupil'',
       au_entity_type = ''pupils'', au_entity_id = pupilId,
       au_old_values = Some [(''grade_level'', grade_json (promotionFromGrade pg))],
       au_new_values = Some [(''grade_level'', grade_json (promotionToGrade pg)),
                             (''section'', JStr (promotionToSection pg))] \<rparr>"

definition handlePromotePupils :: "pupils_page \<Rightarrow> store_env \<Rightarrow> database \<Rightarrow> toast \<times> database" where
  "handlePromotePupils pg env db =
     (if promotionToGrade pg = None \<or> promotionToGrade pg = Some 0 \<or> promotionToSection pg = []
         \<or> length (selectedPupilsForPromotion pg) = 0
      then (toast_error ''Please select destination grade, section, and pupils to promote'', db)
      else
        let selectedPupilIds = selectedPupilsForPromotion pg;
            toGrade = the (promotionToGrade pg)
        in case update_pupils_in env selectedPupilIds
                  (\<lambda>r. r\<lparr> pu_grade_level := toGrade, pu_section := promotionToSection pg \<rparr>)
                  (pupils_table db) of
             Inl e \<Rightarrow> (toast_error (or_else (Some e) ''Failed to promote pupils''), db)
           | Inr rows \<Rightarrow>
               (toast_success (''Successfully promoted '' @ show_nat (length selectedPupilIds)
                  @ '' pupils to Grade '' @ show_nat toGrade @ '' - '' @ promotionToSection pg),
                db\<lparr> pupils_table := rows,
                    audit_logs := audit_logs db @
                      filter (accepts_audit env) (map (promotion_audit pg) selectedPupilIds) \<rparr>))"

text \<open>
  \<open>promoteStudent\<close> of the shared utilities, for one pupil; grade 7 is graduation.  It
  does not read the result of its update, so a refused update leaves the table as it
  is and the function goes on; \<open>logAuditEvent\<close> inserts the entry and only logs a
  failure of the insertion.  The result is the returned boolean.
\<close>

definition logAuditEvent ::
  "store_env \<Rightarrow> string \<Rightarrow> string \<Rightarrow> string \<Rightarrow> string \<Rightarrow> (string \<times> json) list option
     \<Rightarrow> (string \<times> json) list option \<Rightarrow> database \<Rightarrow> database" where
  "logAuditEvent env userId action entityType entityId oldValues newValues db =
     (let entry = \<lparr> au_user_id = Some userId, au_action = action, au_entity_type = entityType,
                     au_entity_id = entityId, au_old_values = oldValues,
                     au_new_values = newValues \<rparr>
      in if accepts_audit env entry then db\<lparr> audit_logs := audit_logs db @ [entry] \<rparr> else db)"

definition promoteStudent ::
  "store_env \<Rightarrow> string \<Rightarrow> nat \<Rightarrow> nat \<Rightarrow> string \<Rightarrow> string \<Rightarrow> database \<Rightarrow> bool \<times> database" where
  "promoteStudent env pupilId fromGrade toGrade toSection promotedBy db =
     (let change = (if toGrade = 7 then (\<lambda>r. r\<lparr> pu_archived := True \<rparr>)
                    else (\<lambda>r. r\<lparr> pu_grade_level := toGrade, pu_section := toSection \<rparr>));
          db1 = (case update_pupils_in env [pupilId] change (pupils_table db) of
                   Inl e \<Rightarrow> db
                 | Inr rows \<Rightarrow> db\<lparr> pupils_table := rows \<rparr>)
      in (True,
          logAuditEvent env promotedBy (if toGrade = 7 then ''graduate_pupil'' else ''promote_pupil'')
            ''pupils'' pupilId
            (Some [(''grade_level'', JNum (of_nat fromGrade))])
            (Some [(''grade_level'', JNum (of_nat toGrade)), (''section'', JStr toSection)])
            db1))"

text \<open>
  Five pupils of grade 3, section A, a selection of four of them and a bad id, and a
  store that refuses the bad id and the audit entries of no user.
\<close>

definition pupil_of :: "string \<Rightarrow> pupil_row" where
  "pupil_of i = \<lparr> pu_id = i, pu_first_name = ''Ana'', pu_last_name = ''Cruz'',
                  pu_middle_name = None, pu_grade_level = 3, pu_section = ''A'',
                  pu_archived = False, pu_parent_id = None \<rparr>"

definition five_pupils_database :: database where
  "five_pupils_database =
     empty_database\<lparr> pupils_table :=
       [pupil_of ''p1'', pupil_of ''p2'', pupil_of ''p3'', pupil_of ''p4'', pupil_of ''p5''] \<rparr>"

definition example_promotion :: pupils_page where
  "example_promotion =
     \<lparr> promotionFromGrade = Some 3, promotionToGrade = Some 4, promotionToSection = ''B'',
       selectedPupilsForPromotion = [''p1'', ''p2'', ''p3'', ''p4'', ''not-an-id''] \<rparr>"

definition example_store :: store_env where
  "example_store =
     \<lparr> refused_id = (\<lambda>i. i = ''not-an-id''),
       accepts_audit = (\<lambda>e. au_user_id e \<noteq> Some ''current_user_id'') \<rparr>"

section \<open>The users page: approving a registration\<close>

datatype RegistrationStatus = pending | under_review | approved | rejected

record registration_row =
  rg_id :: string
  rg_full_name :: string
  rg_email :: string
  rg_password :: string
  rg_role :: UserRole
  rg_phone_number :: "string option"
  rg_address :: "string option"
  rg_profile_picture :: "string option"
  rg_status :: RegistrationStatus

record account_row =
  ac_id :: string
  ac_email :: string
  ac_full_name :: string
  ac_role :: UserRole
  ac_phone_number :: "string option"
  ac_address :: "string option"
  ac_profile_picture :: "string option"

record credential =
  cr_id :: string
  cr_email :: string
  cr_password :: string

text \<open>
  The tables of registrations and accounts, and the identity provider: the
  credentials it holds and the e-mail addresses of the \<open>signUp\<close> requests it has
  received.
\<close>

record accounts_db =
  user_registrations :: "registration_row list"
  users :: "account_row list"
  auth_users :: "credential list"
  signUp_requests :: "string list"

text \<open>
  The answer of the stored procedure \<open>approve_user_registration\<close>: \<open>success\<close> false with
  an optional \<open>error\<close>, or \<open>success\<close> true with \<open>already_exists\<close> and
  \<open>registration_data\<close>.
\<close>

datatype approve_response =
  approve_failed "string option"
  | approve_ok bool registration_row

text \<open>
  Modelled from the spec: the stored procedure \<open>approve_user_registration\<close>, of which
  the source holds only the call.  In one step it checks the registration and moves
  its status to \<open>approved\<close>, keeping a snapshot of its data; it fails when the id does
  not exist (NotFound) and when the status is already \<open>approved\<close> or \<open>rejected\<close>
  (AlreadyProcessed), with the messages that the handler's \<open>catch\<close> looks for.  It then
  reports whether an Account already exists for the e-mail address, and creates none.
\<close>

definition approve_user_registration ::
  "string \<Rightarrow> string \<Rightarrow> accounts_db \<Rightarrow> approve_response \<times> accounts_db" where
  "approve_user_registration registration_id admin_user_id db =
     (case find (\<lambda>r. rg_id r = registration_id) (user_registrations db) of
        None \<Rightarrow> (approve_failed (Some ''Registration does not exist''), db)
      | Some r \<Rightarrow>
          if rg_status r = approved \<or> rg_status r = rejected
          then (approve_failed (Some ''Registration already processed''), db)
          else (approve_ok (list_ex (\<lambda>a. ac_email a = rg_email r) (users db)) r,
                db\<lparr> user_registrations :=
                      map (\<lambda>x. if rg_id x = registration_id then x\<lparr> rg_status := approved \<rparr>
                               else x) (user_registrations db) \<rparr>))"

text \<open>
  Modelled from the spec: the stored procedure \<open>create_user_profile_after_auth\<close>, of
  which the source holds only the call.  When it succeeds it has created the Account
  row keyed to the new identity id.  Whether it succeeds is given from outside.
\<close>

definition create_user_profile_after_auth :: "string \<Rightarrow> registration_row \<Rightarrow> accounts_db \<Rightarrow> accounts_db" where
  "create_user_profile_after_auth auth_user_id regData db =
     db\<lparr> users := users db @
          [\<lparr> ac_id = auth_user_id, ac_email = rg_email regData,
             ac_full_name = rg_full_name regData, ac_role = rg_role regData,
             ac_phone_number = rg_phone_number regData, ac_address = rg_address regData,
             ac_profile_picture = rg_profile_picture regData \<rparr>] \<rparr>"

text \<open>
  What the outside gives to one approval: the signed-in admin (\<open>auth.getUser\<close>), the
  transport error of the first procedure call if any, the answer of \<open>auth.signUp\<close> (an
  error, no error and no user, or the new user's id), and the answer of the profile
  procedure (a transport error, \<open>success\<close> false with an optional error, or success).
  A user returned by \<open>signUp\<close> is a credential the identity provider has created.
\<close>

datatype signUp_response = signUp_error string | signUp_no_user | signUp_user string

datatype profile_response = profile_error string | profile_failed "string option" | profile_created

record approval_env =
  current_user :: "string option"
  rpc_error :: "string option"
  signUp_result :: signUp_response
  profile_result :: profile_response

text \<open>\<open>String.prototype.includes\<close>.\<close>

fun starts_with :: "string \<Rightarrow> string \<Rightarrow> bool" where
  "starts_with s [] = True"
| "starts_with [] (c # cs) = False"
| "starts_with (x # xs) (c # cs) = (x = c \<and> starts_with xs cs)"

fun includes_str :: "string \<Rightarrow> string \<Rightarrow> bool" where
  "includes_str [] sub = (sub = [])"
| "includes_str (x # xs) sub = (starts_with (x # xs) sub \<or> includes_str xs sub)"

text \<open>
  The \<open>try\<close> block of \<open>handleApproveRegistration\<close> after the login check: \<open>Inl\<close> is the
  message of the error thrown.  (The call of \<open>debug_registration_status\<close> only logs.)
\<close>

definition approve_try ::
  "string \<Rightarrow> string \<Rightarrow> approval_env \<Rightarrow> accounts_db \<Rightarrow> (string + unit) \<times> accounts_db" where
  "approve_try registration_id admin_id env db =
     (case rpc_error env of
        Some e \<Rightarrow> (Inl e, db)
      | None \<Rightarrow>
          (case approve_user_registration registration_id admin_id db of
             (approve_failed e, db1) \<Rightarrow> (Inl (or_else e ''Failed to approve registration''), db1)
           | (approve_ok already_exists regData, db1) \<Rightarrow>
               if already_exists then (Inr (), db1)
               else
                 let db2 = db1\<lparr> signUp_requests := signUp_requests db1 @ [rg_email regData] \<rparr>
                 in case signUp_result env of
                      signUp_error message \<Rightarrow>
                        (Inl (''Failed to create user account: '' @ message),
                         db2\<lparr> user_registrations :=
                                map (\<lambda>r. if rg_id r = registration_id
                                         then r\<lparr> rg_status := pending \<rparr> else r)
                                  (user_registrations db2) \<rparr>)
                    | signUp_no_user \<Rightarrow> (Inl ''Failed to create user account'', db2)
                    | signUp_user auth_user_id \<Rightarrow>
                        let db3 = db2\<lparr> auth_users := auth_users db2 @
                                    [\<lparr> cr_id = auth_user_id, cr_email = rg_email regData,
                                       cr_password = rg_password regData \<rparr>] \<rparr>
                        in case profile_result env of
                             profile_error message \<Rightarrow>
                               (Inl (''Failed to create user profile: '' @ message), db3)
                           | profile_failed e \<Rightarrow>
                               (Inl (or_else e ''Failed to create user profile''), db3)
                           | profile_created \<Rightarrow>
                               (Inr (), create_user_profile_after_auth auth_user_id regData db3)))"

text \<open>The \<open>catch\<close> block: what is shown for the message of the error.\<close>

definition approve_catch :: "string \<Rightarrow> toast" where
  "approve_catch message =
     (if includes_str message ''already processed''
      then toast_error ''This registration has already been processed. Please refresh the page.''
      else if includes_str message ''does not exist''
      then toast_error ''Registration not found. Please refresh the page.''
      else if includes_str message ''duplicate key'' \<or> includes_str message ''already exists''
      then toast_success ''Registration approved! Please check email for confirmation.''
      else toast_error (or_else (Some message) ''Failed to approve registration''))"

definition handleApproveRegistration ::
  "registration_row \<Rightarrow> approval_env \<Rightarrow> accounts_db \<Rightarrow> toast \<times> accounts_db" where
  "handleApproveRegistration registration env db =
     (case current_user env of
        None \<Rightarrow> (toast_error ''You must be logged in to approve registrations'', db)
      | Some admin_id \<Rightarrow>
          (case approve_try (rg_id registration) admin_id env db of
             (Inr u, db') \<Rightarrow>
               (toast_success ''Registration approved! Please check email for confirmation.'', db')
           | (Inl message, db') \<Rightarrow> (approve_catch message, db')))"

text \<open>
  Two pending registrations with the same e-mail address and no account yet; an
  outside where the identity provider creates the user \<open>u1\<close> and the profile is
  created.
\<close>

definition registration_of :: "string \<Rightarrow> registration_row" where
  "registration_of i =
     \<lparr> rg_id = i, rg_full_name = ''Ana Cruz'', rg_email = ''ana@example.org'',
       rg_password = ''secret1'', rg_role = teacher, rg_phone_number = None,
       rg_address = None, rg_profile_picture = None, rg_status = pending \<rparr>"

definition two_registrations :: accounts_db where
  "two_registrations =
     \<lparr> user_registrations = [registration_of ''r1'', registration_of ''r2''],
       users = [], auth_users = [], signUp_requests = [] \<rparr>"

definition example_approval :: approval_env where
  "example_approval =
     \<lparr> current_user = Some ''admin1'', rpc_error = None, signUp_result = signUp_user ''u1'',
       profile_result = profile_created \<rparr>"

section \<open>Lateness\<close>

lemma digit_val_digit_char: "n < 10 \<Longrightarrow> digit_val (digit_char n) = Some n"
  by (simp add: digit_val_def digit_char_def Let_def)

lemma two_digits_digit_char:
  "n < 100 \<Longrightarrow> two_digits (digit_char (n div 10)) (digit_char (n mod 10)) = Some n"
  by (simp add: two_digits_def digit_val_digit_char)

lemma parse_time_hhmm:
  "h < 24 \<Longrightarrow> m < 60 \<Longrightarrow> parse_time (hhmm h m) = Some ((h * 60 + m) * 60000)"
  by (simp add: hhmm_def two_digits_digit_char time_value_def)

lemma parse_time_hhmmss:
  "h < 24 \<Longrightarrow> m < 60 \<Longrightarrow> s < 60 \<Longrightarrow>
   parse_time (hhmmss h m s) = Some (((h * 60 + m) * 60 + s) * 1000)"
  by (simp add: hhmmss_def hhmm_def two_digits_digit_char time_value_def)

lemma hhmm_not_empty: "hhmm h m \<noteq> []"
  by (simp add: hhmm_def)

lemma hhmmss_not_empty: "hhmmss h m s \<noteq> []"
  by (simp add: hhmmss_def)

lemma isLate_parsed:
  "a \<noteq> [] \<Longrightarrow> b \<noteq> [] \<Longrightarrow> parse_time a = Some x \<Longrightarrow> parse_time b = Some y \<Longrightarrow>
   isLate (Some a) (Some b) = (y + 900000 < x)"
  by (simp add: isLate_def falsy_def add_ms_def date_gt_def)

lemma ms_minutes: "((a::nat) * 60000 + 900000 < b * 60000) = (a + 15 < b)"
proof -
  have "a * 60000 + 900000 = (a + 15) * 60000" by simp
  then show ?thesis by (simp only: mult_less_cancel2) simp
qed

lemma ms_seconds: "((a::nat) * 1000 + 900000 < b * 1000) = (a + 900 < b)"
proof -
  have "a * 1000 + 900000 = (a + 900) * 1000" by simp
  then show ?thesis by (simp only: mult_less_cancel2) simp
qed

lemma ms_clock_against_store:
  "(((a::nat) * 60 + s) * 1000 + 900000 < b * 60000) = ((a + 15) * 60 + s < b * 60)"
proof -
  have "(a * 60 + s) * 1000 + 900000 = ((a + 15) * 60 + s) * 1000" by simp
  moreover have "b * 60000 = (b * 60) * 1000" by simp
  ultimately show ?thesis by (simp only: mult_less_cancel2) simp
qed

lemma isLate_minutes:
  assumes "h1 < 24" "m1 < 60" "h2 < 24" "m2 < 60"
  shows "isLate (Some (hhmm h1 m1)) (Some (hhmm h2 m2)) = (h2 * 60 + m2 + 15 < h1 * 60 + m1)"
proof -
  have "isLate (Some (hhmm h1 m1)) (Some (hhmm h2 m2))
          = ((h2 * 60 + m2) * 60000 + 900000 < (h1 * 60 + m1) * 60000)"
    using assms by (simp only: isLate_parsed [OF hhmm_not_empty hhmm_not_empty
          parse_time_hhmm parse_time_hhmm])
  also have "\<dots> = (h2 * 60 + m2 + 15 < h1 * 60 + m1)"
    by (rule ms_minutes)
  finally show ?thesis .
qed

lemma isLate_seconds:
  assumes "h1 < 24" "m1 < 60" "s1 < 60" "h2 < 24" "m2 < 60" "s2 < 60"
  shows "isLate (Some (hhmmss h1 m1 s1)) (Some (hhmmss h2 m2 s2))
        = ((h2 * 60 + m2 + 15) * 60 + s2 < (h1 * 60 + m1) * 60 + s1)"
proof -
  have "isLate (Some (hhmmss h1 m1 s1)) (Some (hhmmss h2 m2 s2))
          = (((h2 * 60 + m2) * 60 + s2) * 1000 + 900000 < ((h1 * 60 + m1) * 60 + s1) * 1000)"
    using assms by (simp only: isLate_parsed [OF hhmmss_not_empty hhmmss_not_empty
          parse_time_hhmmss parse_time_hhmmss])
  also have "\<dots> = ((h2 * 60 + m2) * 60 + s2 + 900 < (h1 * 60 + m1) * 60 + s1)"
    by (rule ms_seconds)
  also have "\<dots> = ((h2 * 60 + m2 + 15) * 60 + s2 < (h1 * 60 + m1) * 60 + s1)"
    by (simp add: algebra_simps)
  finally show ?thesis .
qed

lemma isLate_clock_against_store:
  assumes "h1 < 24" "m1 < 60" "h2 < 24" "m2 < 60" "s2 < 60"
  shows "isLate (Some (hhmm h1 m1)) (Some (hhmmss h2 m2 s2))
           = ((h2 * 60 + m2 + 15) * 60 + s2 < (h1 * 60 + m1) * 60)"
proof -
  have "isLate (Some (hhmm h1 m1)) (Some (hhmmss h2 m2 s2))
          = (((h2 * 60 + m2) * 60 + s2) * 1000 + 900000 < (h1 * 60 + m1) * 60000)"
    using assms by (simp only: isLate_parsed [OF hhmm_not_empty hhmmss_not_empty
          parse_time_hhmm parse_time_hhmmss])
  also have "\<dots> = ((h2 * 60 + m2 + 15) * 60 + s2 < (h1 * 60 + m1) * 60)"
    by (rule ms_clock_against_store)
  finally show ?thesis .
qed

lemma isLateAttendance_eq_isLate: "isLateAttendance t c = isLate t c"
  by (simp add: isLateAttendance_def isLate_def LATE_THRESHOLD_MINUTES_def)

text \<open>
  Claim C5.  For times of day, \<open>isLate\<close> is true exactly when the time-in is strictly
  later than the class start plus 15 minutes, whether the two times are written with
  or without seconds: 08:15 against an 08:00 start is not late and 08:16 is late.  A
  missing (null, undefined or empty) time-in or class start gives false.  The shared
  utility \<open>isLateAttendance\<close> computes the same value.
\<close>

theorem isLate_iff_past_threshold:
  "(h1 < 24 \<and> m1 < 60 \<and> h2 < 24 \<and> m2 < 60 \<longrightarrow>
      isLate (Some (hhmm h1 m1)) (Some (hhmm h2 m2)) = (h2 * 60 + m2 + 15 < h1 * 60 + m1))
   \<and> (h1 < 24 \<and> m1 < 60 \<and> s1 < 60 \<and> h2 < 24 \<and> m2 < 60 \<and> s2 < 60 \<longrightarrow>
      isLate (Some (hhmmss h1 m1 s1)) (Some (hhmmss h2 m2 s2))
        = ((h2 * 60 + m2 + 15) * 60 + s2 < (h1 * 60 + m1) * 60 + s1))
   \<and> (h1 < 24 \<and> m1 < 60 \<and> h2 < 24 \<and> m2 < 60 \<and> s2 < 60 \<longrightarrow>
      isLate (Some (hhmm h1 m1)) (Some (hhmmss h2 m2 s2))
        = ((h2 * 60 + m2 + 15) * 60 + s2 < (h1 * 60 + m1) * 60))
   \<and> \<not> isLate (Some ''08:15'') (Some ''08:00'')
   \<and> isLate (Some ''08:16'') (Some ''08:00'')
   \<and> \<not> isLate None c \<and> \<not> isLate (Some []) c
   \<and> \<not> isLate t None \<and> \<not> isLate t (Some [])
   \<and> isLateAttendance t c = isLate t c"
proof -
  have at_threshold: "\<not> isLate (Some ''08:15'') (Some ''08:00'')"
    by (simp add: isLate_def falsy_def add_ms_def date_gt_def time_value_def
        two_digits_def digit_val_def)
  have past_threshold: "isLate (Some ''08:16'') (Some ''08:00'')"
    by (simp add: isLate_def falsy_def add_ms_def date_gt_def time_value_def
        two_digits_def digit_val_def)
  have missing: "\<not> isLate None c \<and> \<not> isLate (Some []) c
      \<and> \<not> isLate t None \<and> \<not> isLate t (Some [])"
    by (simp add: isLate_def falsy_def)
  show ?thesis
    using at_threshold past_threshold missing
    by (simp add: isLate_minutes isLate_seconds isLate_clock_against_store
        isLateAttendance_eq_isLate)
qed

theorem isLate_iff_past_threshold_witness:
  "(8::nat) < 24 \<and> (16::nat) < 60 \<and> (0::nat) < 60
   \<and> isLate (Some (hhmm 8 16)) (Some (hhmm 8 0))
   \<and> \<not> isLate (Some (hhmm 8 15)) (Some (hhmm 8 0))
   \<and> isLate (Some (hhmmss 8 15 1)) (Some (hhmmss 8 0 0))
   \<and> \<not> isLate (Some (hhmmss 23 59 59)) (Some (hhmmss 23 50 0))
   \<and> isLate (Some (hhmm 8 16)) (Some (hhmmss 8 0 59))"
  using isLate_iff_past_threshold [of 8 16 8 0 1 0]
    isLate_iff_past_threshold [of 8 15 8 0 1 0]
    isLate_iff_past_threshold [of 23 59 23 50 59 0]
    isLate_iff_past_threshold [of 8 16 8 0 0 59]
  by simp

section \<open>The attendance page: what is stored\<close>

lemma att_key_set_columns: "att_key (set_columns d r) = att_key r"
  by (simp add: att_key_def set_columns_def)

lemma att_key_inserted_row: "att_key (inserted_row i d) = ad_key d"
  by (simp add: att_key_def ad_key_def inserted_row_def)

lemma find_key_None:
  "(find (\<lambda>r. att_key r = k) rows = None) = (filter (\<lambda>r. att_key r = k) rows = [])"
  by (auto simp add: find_None_iff filter_empty_conv)

lemma upsert_attendance_new:
  "filter (\<lambda>r. att_key r = ad_key d) rows = [] \<Longrightarrow>
   snd (upsert_attendance i d rows) = rows @ [inserted_row i d]"
  by (simp add: upsert_attendance_def find_key_None [symmetric])

lemma upsert_attendance_existing:
  "filter (\<lambda>r. att_key r = ad_key d) rows \<noteq> [] \<Longrightarrow>
   snd (upsert_attendance i d rows)
     = map (\<lambda>r. if att_key r = ad_key d then set_columns d r else r) rows"
  by (cases "find (\<lambda>r. att_key r = ad_key d) rows")
     (simp_all add: upsert_attendance_def find_key_None)

lemma filter_map_set_columns:
  "filter (\<lambda>r. att_key r = k) (map (\<lambda>r. if att_key r = ad_key d then set_columns d r else r) rows)
     = (if k = ad_key d then map (set_columns d) (filter (\<lambda>r. att_key r = k) rows)
        else filter (\<lambda>r. att_key r = k) rows)"
  by (induction rows) (auto simp: att_key_set_columns)

lemma upsert_attendance_at_key:
  "filter (\<lambda>r. att_key r = ad_key d) (snd (upsert_attendance i d rows))
     = (if filter (\<lambda>r. att_key r = ad_key d) rows = [] then [inserted_row i d]
        else map (set_columns d) (filter (\<lambda>r. att_key r = ad_key d) rows))"
  by (simp add: upsert_attendance_new upsert_attendance_existing filter_map_set_columns
      att_key_inserted_row)

lemma attendance_sendAbsenceNotification:
  "attendance (sendAbsenceNotification pg p db) = attendance db"
  by (simp add: sendAbsenceNotification_def Let_def split: option.splits)

lemma markAttendance_attendance:
  assumes "user pg = Some u" and "user_role u \<noteq> parent" and "selectedSubject pg \<noteq> []"
    and "upsert_error env = None"
  shows "attendance (snd (markAttendance pg env pupilId status timeIn remarks db))
     = snd (upsert_attendance (new_row_id env) (mark_data pg env pupilId status timeIn remarks)
          (attendance db))"
  using assms
  by (simp add: markAttendance_def mark_data_def isRole_def Let_def split_beta
      attendance_sendAbsenceNotification)

lemma markAttendance_rows_at:
  assumes "user pg = Some u" and "user_role u \<noteq> parent" and "selectedSubject pg \<noteq> []"
    and "upsert_error env = None"
  shows "rows_at (pupilId, selectedSubject pg, selectedDate pg)
           (snd (markAttendance pg env pupilId status timeIn remarks db))
     = (let d = mark_data pg env pupilId status timeIn remarks;
            old = rows_at (pupilId, selectedSubject pg, selectedDate pg) db
        in if old = [] then [inserted_row (new_row_id env) d] else map (set_columns d) old)"
proof -
  have k: "ad_key (mark_data pg env pupilId status timeIn remarks)
             = (pupilId, selectedSubject pg, selectedDate pg)"
    by (simp add: ad_key_def mark_data_def Let_def)
  show ?thesis
    unfolding rows_at_def markAttendance_attendance [OF assms] Let_def
    using upsert_attendance_at_key [of "mark_data pg env pupilId status timeIn remarks"
        "new_row_id env" "attendance db"]
    by (simp only: k)
qed

text \<open>
  Claim C4.  A teacher or admin marks a pupil \<open>present\<close> with a subject selected and the
  store accepting the write.  Then a record is stored at (pupil, subject, date), and its
  status is \<open>late\<close> when the selected subject has a start time and \<open>isLate\<close> holds of the
  observed (or current) time and that start time, and \<open>present\<close> otherwise (start time
  unknown, or time not past the threshold).  For a clock time \<open>h1:m1\<close> and a start time
  \<open>h2:m2:s2\<close> the status is \<open>late\<close> exactly when the clock time is more than 15 minutes
  after the start.
\<close>

theorem markAttendance_present_status:
  assumes "user pg = Some u" and "user_role u \<noteq> parent" and "selectedSubject pg \<noteq> []"
    and "upsert_error env = None"
  shows "let stored = rows_at (pupilId, selectedSubject pg, selectedDate pg)
                        (snd (markAttendance pg env pupilId present timeIn remarks db));
             start_time = (case find (\<lambda>s. su_id s = selectedSubject pg) (subjects pg) of
                             None \<Rightarrow> None | Some s \<Rightarrow> su_start_time s);
             currentTime = or_else timeIn (now env)
         in stored \<noteq> []
            \<and> (\<forall>r \<in> set stored. att_status r =
                  (if \<not> falsy start_time \<and> isLate (Some currentTime) start_time
                   then late else present))
            \<and> (h1 < 24 \<and> m1 < 60 \<and> h2 < 24 \<and> m2 < 60 \<and> s2 < 60
                  \<and> currentTime = hhmm h1 m1 \<and> start_time = Some (hhmmss h2 m2 s2) \<longrightarrow>
                (\<forall>r \<in> set stored. att_status r =
                  (if (h2 * 60 + m2 + 15) * 60 + s2 < (h1 * 60 + m1) * 60
                   then late else present)))"
proof -
  let ?d = "mark_data pg env pupilId present timeIn remarks"
  let ?start = "case find (\<lambda>s. su_id s = selectedSubject pg) (subjects pg) of
                             None \<Rightarrow> None | Some s \<Rightarrow> su_start_time s"
  let ?t = "or_else timeIn (now env)"
  let ?stored = "rows_at (pupilId, selectedSubject pg, selectedDate pg)
                        (snd (markAttendance pg env pupilId present timeIn remarks db))"
  have st: "ad_status ?d = (if \<not> falsy ?start \<and> isLate (Some ?t) ?start then late else present)"
    by (simp add: mark_data_def Let_def)
  have nonempty: "?stored \<noteq> []"
    by (simp add: markAttendance_rows_at [OF assms] Let_def)
  have all: "\<forall>r \<in> set ?stored. att_status r = ad_status ?d"
    by (auto simp add: markAttendance_rows_at [OF assms] Let_def inserted_row_def set_columns_def)
  have conc: "\<forall>r \<in> set ?stored. att_status r =
                  (if (h2 * 60 + m2 + 15) * 60 + s2 < (h1 * 60 + m1) * 60 then late else present)"
    if "h1 < 24" "m1 < 60" "h2 < 24" "m2 < 60" "s2 < 60"
      "?t = hhmm h1 m1" "?start = Some (hhmmss h2 m2 s2)"
    using all st that isLate_clock_against_store [of h1 m1 h2 m2 s2]
    by (simp add: falsy_def hhmmss_not_empty)
  show ?thesis
    unfolding Let_def using nonempty all st conc by auto
qed

theorem markAttendance_present_status_witness:
  "map att_status (rows_at (''p1'', ''math'', ''2024-06-03'')
      (snd (markAttendance example_page example_env ''p1'' present None None empty_database)))
     = [late]
   \<and> map att_status (rows_at (''p1'', ''math'', ''2024-06-03'')
      (snd (markAttendance example_page example_env ''p1'' present (Some ''08:15'') None
             absent_database)))
     = [present]"
  using markAttendance_present_status [of example_page "\<lparr> user_id = ''t1'', user_role = teacher \<rparr>"
      example_env "''p1''" None None empty_database 8 16 8 0 0]
  by (simp add: markAttendance_def example_page_def example_env_def empty_database_def
      absent_database_def rows_at_def
      isRole_def or_else_def falsy_def isLate_def add_ms_def date_gt_def time_value_def
      two_digits_def digit_val_def upsert_attendance_def ad_key_def att_key_def inserted_row_def
      set_columns_def user_id_opt_def Let_def)



section \<open>The attendance page: excusing an absence\<close>

lemma trim_sick: "trim ''sick'' = ''sick''"
  by (simp add: trim_def is_space_def)

text \<open>
  Claim C1, as stated, fails: on a store with no record at the key,
  \<open>handleExcuseAbsence\<close> with the reason \<open>sick\<close> succeeds and leaves a new record with
  status \<open>excused\<close> at the key.
\<close>

theorem handleExcuseAbsence_creates_record:
  "rows_at (''p1'', ''math'', ''2024-06-03'') empty_database = []
   \<and> fst (handleExcuseAbsence example_page example_env ''p1'' ''sick'' empty_database)
       = toast_success ''Absence excused successfully''
   \<and> map att_status (rows_at (''p1'', ''math'', ''2024-06-03'')
        (snd (handleExcuseAbsence example_page example_env ''p1'' ''sick'' empty_database)))
       = [excused]"
  by (simp add: handleExcuseAbsence_def trim_sick example_page_def example_env_def
      empty_database_def upsert_attendance_def ad_key_def att_key_def inserted_row_def
      rows_at_def user_id_opt_def Let_def)

text \<open>
  Claim C1, amended.  \<open>handleExcuseAbsence\<close> rejects an empty or white-space reason
  before any write.  With another reason it upserts at (pupil, selected subject,
  selected date): where records exist at the key, each gets the status \<open>excused\<close> and the
  reason, and no record is added; where none exists, a new record with status
  \<open>excused\<close> is added and the call succeeds.  When the store refuses the write, nothing
  changes and the error is shown.
\<close>

theorem handleExcuseAbsence_upserts:
  "(trim excuseReason = [] \<longrightarrow>
      handleExcuseAbsence pg env pupilId excuseReason db
        = (toast_error ''Please provide a reason for the excuse'', db))
   \<and> (trim excuseReason \<noteq> [] \<and> upsert_error env = Some e \<longrightarrow>
      handleExcuseAbsence pg env pupilId excuseReason db
        = (toast_error (or_else (Some e) ''Failed to excuse absence''), db))
   \<and> (trim excuseReason \<noteq> [] \<and> upsert_error env = None \<longrightarrow>
      fst (handleExcuseAbsence pg env pupilId excuseReason db)
        = toast_success ''Absence excused successfully''
      \<and> (let k = (pupilId, selectedSubject pg, selectedDate pg);
              db' = snd (handleExcuseAbsence pg env pupilId excuseReason db)
          in (rows_at k db \<noteq> [] \<longrightarrow>
                map att_id (attendance db') = map att_id (attendance db)
                \<and> rows_at k db' \<noteq> []
                \<and> (\<forall>r \<in> set (rows_at k db').
                      att_status r = excused \<and> att_excuse_reason r = Some excuseReason))
             \<and> (rows_at k db = [] \<longrightarrow>
                attendance db' = attendance db @
                  [\<lparr> att_id = new_row_id env, att_pupil_id = pupilId,
                     att_subject_id = selectedSubject pg, att_date = selectedDate pg,
                     att_time_in = None, att_status = excused, att_remarks = None,
                     att_excuse_reason = Some excuseReason,
                     att_teacher_id = user_id_opt (user pg) \<rparr>])))"
proof -
  let ?d = "\<lparr> ad_pupil_id = pupilId, ad_subject_id = selectedSubject pg,
                ad_date = selectedDate pg, ad_time_in = None, ad_status = excused,
                ad_remarks = None, ad_excuse_reason = Some excuseReason,
                ad_teacher_id = user_id_opt (user pg) \<rparr>"
  let ?k = "(pupilId, selectedSubject pg, selectedDate pg)"
  let ?db' = "snd (handleExcuseAbsence pg env pupilId excuseReason db)"
  have k: "ad_key ?d = ?k"
    by (simp add: ad_key_def)
  have rejected: "handleExcuseAbsence pg env pupilId excuseReason db
        = (toast_error ''Please provide a reason for the excuse'', db)"
    if "trim excuseReason = []"
    using that by (simp add: handleExcuseAbsence_def)
  have refused: "handleExcuseAbsence pg env pupilId excuseReason db
        = (toast_error (or_else (Some e) ''Failed to excuse absence''), db)"
    if "trim excuseReason \<noteq> []" "upsert_error env = Some e"
    using that by (simp add: handleExcuseAbsence_def)
  have shown: "fst (handleExcuseAbsence pg env pupilId excuseReason db)
        = toast_success ''Absence excused successfully''"
    if "trim excuseReason \<noteq> []" "upsert_error env = None"
    using that by (simp add: handleExcuseAbsence_def Let_def split_beta)
  have att: "attendance ?db' = snd (upsert_attendance (new_row_id env) ?d (attendance db))"
    if "trim excuseReason \<noteq> []" "upsert_error env = None"
    using that by (simp add: handleExcuseAbsence_def Let_def split_beta)
  have existing: "map att_id (attendance ?db') = map att_id (attendance db)
                \<and> rows_at ?k ?db' \<noteq> []
                \<and> (\<forall>r \<in> set (rows_at ?k ?db').
                      att_status r = excused \<and> att_excuse_reason r = Some excuseReason)"
    if "trim excuseReason \<noteq> []" "upsert_error env = None" "rows_at ?k db \<noteq> []"
  proof -
    have old: "filter (\<lambda>r. att_key r = ad_key ?d) (attendance db) \<noteq> []"
      using that(3) by (simp add: k rows_at_def)
    have ids: "map att_id (attendance ?db') = map att_id (attendance db)"
      unfolding att [OF that(1,2)] upsert_attendance_existing [OF old]
      by (induction "attendance db") (simp_all add: set_columns_def)
    have "filter (\<lambda>r. att_key r = ad_key ?d)
            (snd (upsert_attendance (new_row_id env) ?d (attendance db)))
          = map (set_columns ?d) (filter (\<lambda>r. att_key r = ad_key ?d) (attendance db))"
      using old by (simp only: upsert_attendance_at_key if_False)
    then have at_key: "rows_at ?k ?db' = map (set_columns ?d) (rows_at ?k db)"
      unfolding rows_at_def att [OF that(1,2)] by (simp only: k)
    show ?thesis
      using ids at_key that(3) by (auto simp add: set_columns_def)
  qed
  have created: "attendance ?db' = attendance db @
                  [\<lparr> att_id = new_row_id env, att_pupil_id = pupilId,
                     att_subject_id = selectedSubject pg, att_date = selectedDate pg,
                     att_time_in = None, att_status = excused, att_remarks = None,
                     att_excuse_reason = Some excuseReason,
                     att_teacher_id = user_id_opt (user pg) \<rparr>]"
    if "trim excuseReason \<noteq> []" "upsert_error env = None" "rows_at ?k db = []"
  proof -
    have old: "filter (\<lambda>r. att_key r = ad_key ?d) (attendance db) = []"
      using that(3) by (simp add: k rows_at_def)
    show ?thesis
      unfolding att [OF that(1,2)] upsert_attendance_new [OF old]
      by (simp add: inserted_row_def)
  qed
  show ?thesis
    unfolding Let_def using rejected refused shown existing created by blast
qed

theorem handleExcuseAbsence_upserts_witness:
  "trim ''sick'' \<noteq> [] \<and> upsert_error example_env = None
   \<and> rows_at (''p1'', ''math'', ''2024-06-03'') absent_database \<noteq> []
   \<and> map (\<lambda>r. (att_id r, att_status r, att_excuse_reason r))
       (attendance (snd (handleExcuseAbsence example_page example_env ''p1'' ''sick''
          absent_database)))
       = [(''a0'', excused, Some ''sick'')]
   \<and> handleExcuseAbsence example_page example_env ''p1'' ''   '' absent_database
       = (toast_error ''Please provide a reason for the excuse'', absent_database)"
  using handleExcuseAbsence_upserts [of "''sick''" example_page example_env "''p1''"
      absent_database]
    handleExcuseAbsence_upserts [of "''   ''" example_page example_env "''p1''"
      absent_database]
  by (simp add: handleExcuseAbsence_def trim_def is_space_def example_page_def example_env_def
      empty_database_def absent_database_def upsert_attendance_def ad_key_def att_key_def
      set_columns_def rows_at_def user_id_opt_def Let_def)

section \<open>The grades page: saving a grade twice\<close>

lemma parseInt_Some_not_empty: "parseInt s = Some q \<Longrightarrow> s \<noteq> []"
  by (auto simp add: parseInt_def)

lemma saveClassGrades_one_entry:
  assumes "gp_selectedSubject pg \<noteq> []" and "gp_selectedQuarter pg \<noteq> []" and "0 < v"
    and "classGrades pg = [(p, v)]"
  shows "saveClassGrades pg env db =
     (case save_entry pg env (p, v) db of
        Inl e \<Rightarrow> (toast_error (or_else (Some e) ''Failed to save grades''), db)
      | Inr db' \<Rightarrow> (toast_success ''Class grades saved successfully'', db'))"
  using assms by (simp add: saveClassGrades_def split: sum.splits)

lemma save_entry_create:
  assumes "parseInt (gp_selectedQuarter pg) = Some q"
    and "select_error env p = None" and "write_error env p = None"
    and "grade_rows_at p (gp_selectedSubject pg) q db = []"
  shows "save_entry pg env (p, v) db =
     Inr (db\<lparr> grades := grades db @
             [\<lparr> gr_id = new_grade_id env p, gr_pupil_id = p,
                gr_subject_id = gp_selectedSubject pg, gr_quarter = q,
                gr_final_grade = v, gr_teacher_id = user_id_opt (gp_user pg) \<rparr>],
           audit_logs := audit_logs db @
             [\<lparr> au_user_id = user_id_opt (gp_user pg),
                au_action = ''create_grade'',
                au_entity_type = ''grades'',
                au_entity_id = new_grade_id env p,
                au_old_values = None,
                au_new_values = Some
                  ([(''pupil_id'', JStr p),
                    (''subject_id'', JStr (gp_selectedSubject pg)),
                    (''quarter'', JNum (of_nat q)),
                    (''final_grade'', JNum v)]
                   @ (case user_id_opt (gp_user pg) of None \<Rightarrow> []
                      | Some t \<Rightarrow> [(''teacher_id'', JStr t)])) \<rparr>] \<rparr>)"
  using assms by (simp add: save_entry_def single_def)

lemma save_entry_update:
  assumes "parseInt (gp_selectedQuarter pg) = Some q"
    and "select_error env p = None" and "write_error env p = None"
    and "gp_selectedSubject pg = subj" and "user_id_opt (gp_user pg) = uid"
    and "grade_rows_at p subj q db = [g0]"
  shows "save_entry pg env (p, v) db =
     Inr (db\<lparr> grades :=
             map (\<lambda>g. if gr_id g = gr_id g0
                      then g\<lparr> gr_pupil_id := p,
                             gr_subject_id := subj,
                             gr_quarter := q,
                             gr_final_grade := v,
                             gr_teacher_id :=
                               (case uid of None \<Rightarrow> gr_teacher_id g | Some t \<Rightarrow> Some t) \<rparr>
                      else g) (grades db),
           audit_logs := audit_logs db @
             [\<lparr> au_user_id = uid,
                au_action = ''update_grade'',
                au_entity_type = ''grades'',
                au_entity_id = gr_id g0,
                au_old_values = Some [(''final_grade'', JNum (gr_final_grade g0))],
                au_new_values = Some [(''final_grade'', JNum v)] \<rparr>] \<rparr>)"
proof -
  have "single (grade_rows_at p (gp_selectedSubject pg) q db) = Some g0"
    using assms(4,6) by (simp add: single_def)
  then show ?thesis
    unfolding save_entry_def Let_def fst_conv snd_conv assms(1,2,3) option.case
    by (simp only: assms(4,5) option.case)
qed

lemma map_only_id:
  assumes "i \<notin> gr_id ` set rows"
  shows "map (\<lambda>g. if gr_id g = i then f g else g) rows = rows"
  using assms by (induction rows) auto

text \<open>
  Claim C7.  The subject and quarter are selected, the store accepts the reads and
  writes, no grade is stored yet at (pupil, subject, quarter), and the store gives the
  inserted row an id that is not in use.  The grade \<open>v1\<close> is entered for the pupil and
  saved, then the grade \<open>v2\<close> is entered and saved (both above 0, which is what the
  save path writes).  Afterwards one record is stored at the key and it holds \<open>v2\<close>;
  each save has appended exactly one audit entry; the first entry has no old value
  and the second has the old value \<open>v1\<close> and the new value \<open>v2\<close>.
\<close>

theorem saveClassGrades_twice:
  assumes "gp_selectedSubject pg \<noteq> []" and "parseInt (gp_selectedQuarter pg) = Some q"
    and "select_error env p = None" and "write_error env p = None"
    and "0 < v1" and "0 < v2"
    and "grade_rows_at p (gp_selectedSubject pg) q db = []"
    and "new_grade_id env p \<notin> gr_id ` set (grades db)"
  shows "let pg1 = handleGradeChange p v1 (pg\<lparr> classGrades := [] \<rparr>);
             r1 = saveClassGrades pg1 env db;
             pg2 = handleGradeChange p v2 pg1;
             r2 = saveClassGrades pg2 env (snd r1)
         in fst r1 = toast_success ''Class grades saved successfully''
            \<and> fst r2 = toast_success ''Class grades saved successfully''
            \<and> map gr_final_grade (grade_rows_at p (gp_selectedSubject pg) q (snd r1)) = [v1]
            \<and> map gr_final_grade (grade_rows_at p (gp_selectedSubject pg) q (snd r2)) = [v2]
            \<and> length (grades (snd r2)) = length (grades db) + 1
            \<and> audit_logs (snd r1) = audit_logs db @
                 [\<lparr> au_user_id = user_id_opt (gp_user pg),
                    au_action = ''create_grade'',
                    au_entity_type = ''grades'',
                    au_entity_id = new_grade_id env p,
                    au_old_values = None,
                    au_new_values = Some
                      ([(''pupil_id'', JStr p),
                        (''subject_id'', JStr (gp_selectedSubject pg)),
                        (''quarter'', JNum (of_nat q)),
                        (''final_grade'', JNum v1)]
                       @ (case user_id_opt (gp_user pg) of None \<Rightarrow> []
                          | Some t \<Rightarrow> [(''teacher_id'', JStr t)])) \<rparr>]
            \<and> audit_logs (snd r2) = audit_logs (snd r1) @
                 [\<lparr> au_user_id = user_id_opt (gp_user pg),
                    au_action = ''update_grade'',
                    au_entity_type = ''grades'',
                    au_entity_id = new_grade_id env p,
                    au_old_values = Some [(''final_grade'', JNum v1)],
                    au_new_values = Some [(''final_grade'', JNum v2)] \<rparr>]"
proof -
  let ?subj = "gp_selectedSubject pg"
  let ?pg1 = "pg\<lparr> classGrades := [(p, v1)] \<rparr>"
  let ?pg2 = "pg\<lparr> classGrades := [(p, v2)] \<rparr>"
  let ?row1 = "\<lparr> gr_id = new_grade_id env p, gr_pupil_id = p,
                gr_subject_id = ?subj, gr_quarter = q,
                gr_final_grade = v1, gr_teacher_id = user_id_opt (gp_user pg) \<rparr>"
  let ?row2 = "\<lparr> gr_id = new_grade_id env p, gr_pupil_id = p,
                gr_subject_id = ?subj, gr_quarter = q,
                gr_final_grade = v2, gr_teacher_id = user_id_opt (gp_user pg) \<rparr>"
  define e1 where "e1 = \<lparr> au_user_id = user_id_opt (gp_user pg),
                au_action = ''create_grade'',
                au_entity_type = ''grades'',
                au_entity_id = new_grade_id env p,
                au_old_values = None,
                au_new_values = Some
                  ([(''pupil_id'', JStr p),
                    (''subject_id'', JStr ?subj),
                    (''quarter'', JNum (of_nat q)),
                    (''final_grade'', JNum v1)]
                   @ (case user_id_opt (gp_user pg) of None \<Rightarrow> []
                      | Some t \<Rightarrow> [(''teacher_id'', JStr t)])) \<rparr>"
  define e2 where "e2 = \<lparr> au_user_id = user_id_opt (gp_user pg),
                au_action = ''update_grade'',
                au_entity_type = ''grades'',
                au_entity_id = new_grade_id env p,
                au_old_values = Some [(''final_grade'', JNum v1)],
                au_new_values = Some [(''final_grade'', JNum v2)] \<rparr>"
  define db1 where "db1 = db\<lparr> grades := grades db @ [?row1],
                             audit_logs := audit_logs db @ [e1] \<rparr>"
  define db2 where "db2 = db1\<lparr> grades := grades db @ [?row2],
                              audit_logs := audit_logs db1 @ [e2] \<rparr>"
  have quarter: "gp_selectedQuarter pg \<noteq> []"
    using assms(2) by (rule parseInt_Some_not_empty)
  have typed1: "handleGradeChange p v1 (pg\<lparr> classGrades := [] \<rparr>) = ?pg1"
    by (simp add: handleGradeChange_def)
  have typed2: "handleGradeChange p v2 ?pg1 = ?pg2"
    by (simp add: handleGradeChange_def)
  have first: "saveClassGrades ?pg1 env db = (toast_success ''Class grades saved successfully'', db1)"
    using saveClassGrades_one_entry [of ?pg1 v1 p env db]
      save_entry_create [of ?pg1 q env p db v1] assms quarter
    by (simp add: db1_def e1_def)
  have at1: "grade_rows_at p ?subj q db1 = [?row1]"
    using assms(7) by (simp add: grade_rows_at_def db1_def)
  have upd: "map (\<lambda>g. if gr_id g = new_grade_id env p
                      then g\<lparr> gr_pupil_id := p, gr_subject_id := ?subj, gr_quarter := q,
                             gr_final_grade := v2,
                             gr_teacher_id := (case user_id_opt (gp_user pg) of
                                  None \<Rightarrow> gr_teacher_id g | Some t \<Rightarrow> Some t) \<rparr>
                      else g) (grades db1) = grades db @ [?row2]"
    using map_only_id [OF assms(8)]
    by (cases "user_id_opt (gp_user pg)") (simp_all add: db1_def)
  have second: "saveClassGrades ?pg2 env db1 = (toast_success ''Class grades saved successfully'', db2)"
    using saveClassGrades_one_entry [of ?pg2 v2 p env db1]
      save_entry_update [of ?pg2 q env p ?subj "user_id_opt (gp_user pg)" db1 ?row1 v2]
      assms quarter at1 upd
    by (simp add: db2_def e2_def)
  have at2: "grade_rows_at p ?subj q db2 = [?row2]"
    using assms(7) by (simp add: grade_rows_at_def db2_def)
  show ?thesis
    unfolding Let_def typed1 typed2 first second snd_conv fst_conv at1 at2
    by (simp add: db1_def db2_def e1_def e2_def)
qed

lemma parseInt_1: "parseInt ''1'' = Some 1"
  by (simp add: parseInt_def is_digit_def)

theorem saveClassGrades_twice_witness:
  "map gr_final_grade (grades (snd
      (saveClassGrades (handleGradeChange ''p1'' 90 (handleGradeChange ''p1'' 80 example_grades_page))
        example_grades_env
        (snd (saveClassGrades (handleGradeChange ''p1'' 80 example_grades_page)
               example_grades_env empty_database))))) = [90]
   \<and> map (\<lambda>e. (au_action e, au_old_values e)) (audit_logs (snd
      (saveClassGrades (handleGradeChange ''p1'' 90 (handleGradeChange ''p1'' 80 example_grades_page))
        example_grades_env
        (snd (saveClassGrades (handleGradeChange ''p1'' 80 example_grades_page)
               example_grades_env empty_database)))))
       = [(''create_grade'', None),
          (''update_grade'', Some [(''final_grade'', JNum 80)])]"
proof -
  have h: "gp_selectedSubject example_grades_page \<noteq> []"
      "parseInt (gp_selectedQuarter example_grades_page) = Some 1"
      "select_error example_grades_env ''p1'' = None"
      "write_error example_grades_env ''p1'' = None"
      "(0::rat) < 80" "(0::rat) < 90"
      "grade_rows_at ''p1'' (gp_selectedSubject example_grades_page) 1 empty_database = []"
      "new_grade_id example_grades_env ''p1'' \<notin> gr_id ` set (grades empty_database)"
    by (simp_all add: example_grades_page_def example_grades_env_def empty_database_def
        grade_rows_at_def parseInt_1)
  show ?thesis
    using saveClassGrades_twice [OF h]
    by (simp add: saveClassGrades_def save_entry_def parseInt_1 single_def handleGradeChange_def
        grade_rows_at_def example_grades_page_def example_grades_env_def empty_database_def
        user_id_opt_def Let_def)
qed

section \<open>The grades page: the range of a saved grade\<close>

text \<open>
  Claim C8 at a failing input.  The schema of the entry form refuses the grades 50 and
  150, and 150 is above \<open>MAX_GRADE\<close>, but \<open>saveClassGrades\<close> never runs the schema: with
  \<open>classGrades\<close> holding 50 for one pupil and 150 for another, it reports success and
  stores both grades.  Only a grade that is not above 0 is left out.
\<close>

theorem saveClassGrades_stores_grade_outside_range:
  "\<not> gradeSchema [(''p1'', 50)] \<and> \<not> gradeSchema [(''p2'', 150)] \<and> MAX_GRADE < 150
   \<and> fst (saveClassGrades (example_grades_page\<lparr> classGrades := [(''p1'', 50), (''p2'', 150)] \<rparr>)
          example_grades_env empty_database)
       = toast_success ''Class grades saved successfully''
   \<and> map (\<lambda>g. (gr_pupil_id g, gr_final_grade g))
        (grades (snd (saveClassGrades
           (example_grades_page\<lparr> classGrades := [(''p1'', 50), (''p2'', 150)] \<rparr>)
           example_grades_env empty_database)))
       = [(''p1'', 50), (''p2'', 150)]"
  by (simp add: gradeSchema_def MAX_GRADE_def saveClassGrades_def save_entry_def parseInt_1
      single_def grade_rows_at_def example_grades_page_def example_grades_env_def
      empty_database_def user_id_opt_def Let_def)

section \<open>Double arithmetic\<close>

lemma ilog2_bounds:
  assumes "0 < a"
  shows "pow2 (ilog2 a) \<le> a \<and> a < pow2 (ilog2 a + 1)"
proof (cases "1 \<le> a")
  case True
  define n where "n = \<lfloor>a\<rfloor>"
  have n: "0 < n" using True unfolding n_def by linarith
  have k: "1 \<le> bitlen n" using n bitlen_eq_zero_iff [of n] bitlen_nonneg [of n] by linarith
  have b: "2 ^ nat (bitlen n - 1) \<le> n" "n < 2 ^ nat (bitlen n)"
    using bitlen_bounds [OF n] by simp_all
  have fl: "of_int n \<le> a" "a < of_int n + 1"
    unfolding n_def by linarith+
  have lower: "(2::rat) ^ nat (bitlen n - 1) \<le> a"
  proof -
    have "(2::rat) ^ nat (bitlen n - 1) = of_int (2 ^ nat (bitlen n - 1))" by simp
    also have "\<dots> \<le> of_int n" using b(1) by (simp only: of_int_le_iff)
    also have "\<dots> \<le> a" by (rule fl(1))
    finally show ?thesis .
  qed
  have upper: "a < (2::rat) ^ nat (bitlen n)"
  proof -
    have "n + 1 \<le> 2 ^ nat (bitlen n)" using b(2) by simp
    then have "(of_int (n + 1) :: rat) \<le> of_int (2 ^ nat (bitlen n))"
      by (simp only: of_int_le_iff)
    also have "\<dots> = (2::rat) ^ nat (bitlen n)" by simp
    finally have "of_int n + 1 \<le> (2::rat) ^ nat (bitlen n)" by simp
    then show ?thesis using fl(2) by (rule less_le_trans [rotated])
  qed
  have "ilog2 a = bitlen n - 1" using True by (simp add: ilog2_def n_def)
  then show ?thesis using lower upper k by (simp add: pow2_def)
next
  case False
  define b where "b = 1 / a"
  define m where "m = \<lceil>b\<rceil> - 1"
  have b1: "1 < b" using False assms unfolding b_def by (simp add: field_simps)
  have m: "0 < m" using b1 unfolding m_def by linarith
  have cl: "of_int m < b" "b \<le> of_int m + 1"
    unfolding m_def by linarith+
  have k: "1 \<le> bitlen m" using m bitlen_eq_zero_iff [of m] bitlen_nonneg [of m] by linarith
  have bb: "2 ^ nat (bitlen m - 1) \<le> m" "m < 2 ^ nat (bitlen m)"
    using bitlen_bounds [OF m] by simp_all
  have up: "b \<le> (2::rat) ^ nat (bitlen m)"
  proof -
    have "m + 1 \<le> 2 ^ nat (bitlen m)" using bb(2) by simp
    then have "(of_int (m + 1) :: rat) \<le> of_int (2 ^ nat (bitlen m))"
      by (simp only: of_int_le_iff)
    also have "\<dots> = (2::rat) ^ nat (bitlen m)" by simp
    finally have "of_int m + 1 \<le> (2::rat) ^ nat (bitlen m)" by simp
    then show ?thesis using cl(2) by (rule order_trans [rotated])
  qed
  have low: "(2::rat) ^ nat (bitlen m - 1) < b"
  proof -
    have "(2::rat) ^ nat (bitlen m - 1) = of_int (2 ^ nat (bitlen m - 1))" by simp
    also have "\<dots> \<le> of_int m" using bb(1) by (simp only: of_int_le_iff)
    also have "\<dots> < b" by (rule cl(1))
    finally show ?thesis .
  qed
  have a: "a = 1 / b" using assms by (simp add: b_def)
  have lower: "1 / (2::rat) ^ nat (bitlen m) \<le> a"
    unfolding a using up b1 by (simp add: field_simps)
  have upper: "a < 1 / (2::rat) ^ nat (bitlen m - 1)"
    unfolding a using low b1 by (simp add: field_simps)
  have e: "ilog2 a = - bitlen m" using False by (simp add: ilog2_def m_def b_def)
  have p1: "pow2 (- bitlen m) = 1 / 2 ^ nat (bitlen m)"
    using k by (simp add: pow2_def)
  have p2: "pow2 (- bitlen m + 1) = 1 / 2 ^ nat (bitlen m - 1)"
  proof (cases "bitlen m = 1")
    case True
    then show ?thesis by (simp add: pow2_def)
  next
    case False
    then have "1 < bitlen m" using k by simp
    then show ?thesis by (simp add: pow2_def algebra_simps)
  qed
  show ?thesis using lower upper by (simp only: e p1 p2) 
qed

lemma pow2_pos: "0 < pow2 e"
  by (simp add: pow2_def)

lemma round_half_even_near: "\<bar>of_int (round_half_even q) - q\<bar> \<le> 1 / 2"
proof -
  define d where "d = q - of_int \<lfloor>q\<rfloor>"
  have d: "0 \<le> d" "d < 1"
    unfolding d_def by linarith+
  consider "d < 1 / 2" | "1 / 2 < d" | "d = 1 / 2"
    by linarith
  then have "round_half_even q = \<lfloor>q\<rfloor> \<and> d \<le> 1 / 2 \<or> round_half_even q = \<lfloor>q\<rfloor> + 1 \<and> 1 / 2 \<le> d"
    unfolding d_def round_half_even_def Let_def by cases auto
  then show ?thesis
  proof
    assume a: "round_half_even q = \<lfloor>q\<rfloor> \<and> d \<le> 1 / 2"
    then have "of_int (round_half_even q) - q = - d"
      by (simp add: d_def)
    then show ?thesis using a d by simp
  next
    assume a: "round_half_even q = \<lfloor>q\<rfloor> + 1 \<and> 1 / 2 \<le> d"
    then have "of_int (round_half_even q) - q = 1 - d"
      by (simp add: d_def)
    then show ?thesis using a d by simp
  qed
qed

lemma to_double_near:
  "\<bar>to_double x - x\<bar> \<le> pow2 (max (ilog2 \<bar>x\<bar> - 52) (- 1074)) / 2"
proof (cases "x = 0")
  case True
  then show ?thesis using pow2_pos [of "max (ilog2 \<bar>x\<bar> - 52) (- 1074)"]
    by (simp add: to_double_def)
next
  case False
  define p where "p = pow2 (max (ilog2 \<bar>x\<bar> - 52) (- 1074))"
  define n where "n = round_half_even (\<bar>x\<bar> / p)"
  have p: "0 < p" unfolding p_def by (rule pow2_pos)
  have "of_int n * p - \<bar>x\<bar> = (of_int n - \<bar>x\<bar> / p) * p"
    using p by (simp add: field_simps)
  then have "\<bar>of_int n * p - \<bar>x\<bar>\<bar> = \<bar>of_int n - \<bar>x\<bar> / p\<bar> * p"
    using p by (simp add: abs_mult)
  also have "\<dots> \<le> (1 / 2) * p"
    using round_half_even_near [of "\<bar>x\<bar> / p"] p unfolding n_def
    by (intro mult_right_mono) simp_all
  finally have near: "\<bar>of_int n * p - \<bar>x\<bar>\<bar> \<le> p / 2" by simp
  have td: "to_double x = (if 0 < x then of_int n * p else - (of_int n * p))"
    using False by (simp add: to_double_def Let_def n_def p_def)
  show ?thesis
  proof (cases "0 < x")
    case True
    then show ?thesis using near td by (simp add: p_def)
  next
    case neg: False
    then have "to_double x - x = - (of_int n * p - \<bar>x\<bar>)"
      using False td by simp
    then have "\<bar>to_double x - x\<bar> = \<bar>of_int n * p - \<bar>x\<bar>\<bar>"
      by (simp only: abs_minus_cancel)
    then show ?thesis using near by (simp add: p_def)
  qed
qed

section \<open>The grades page: averages\<close>

lemma pupil_averages_quarters:
  "[q1_avg (pupil_averages db pupil), q2_avg (pupil_averages db pupil),
    q3_avg (pupil_averages db pupil), q4_avg (pupil_averages db pupil)]
     = map (calculatePupilQuarterlyAverage db (pu_id pupil)) [1, 2, 3, 4]"
  by (simp add: pupil_averages_def calculatePupilQuarterlyAverage_def Let_def)

lemma pupil_averages_final:
  "final_avg (pupil_averages db pupil) =
     (let valid = map the (filter (\<lambda>avg. avg \<noteq> None)
                    (map (calculatePupilQuarterlyAverage db (pu_id pupil)) [1, 2, 3, 4]))
      in if valid = [] then None
         else if js_div (foldl js_add 0 valid) (of_nat (length valid)) = 0 then None
         else Some (round2 (js_div (foldl js_add 0 valid) (of_nat (length valid)))))"
proof -
  have "final_avg (pupil_averages db pupil) =
     (let valid = map the (filter (\<lambda>avg. avg \<noteq> None)
                    (map (calculatePupilQuarterlyAverage db (pu_id pupil)) [1, 2, 3, 4]));
          finalAvg = (if length valid > 0
                      then Some (js_div (foldl (\<lambda>sum avg. js_add sum avg) 0 valid)
                                        (of_nat (length valid)))
                      else None)
      in case finalAvg of None \<Rightarrow> None | Some f \<Rightarrow> if f = 0 then None else Some (round2 f))"
    unfolding pupil_averages_def calculatePupilQuarterlyAverage_def Let_def
    by (simp only: ClassAverages.simps list.map if_not_P [of "_ = []"] cong: if_cong) simp
  then show ?thesis
    by (simp add: Let_def)
qed

lemma three_quarters_averages:
  "map (calculatePupilQuarterlyAverage three_quarters_database ''p1'') [1, 2, 3, 4]
     = [Some 85, Some 85, Some 86, None]"
  by code_simp

lemma three_quarters_final:
  "final_avg (pupil_averages three_quarters_database example_pupil) = Some (js_number (8533 / 100))"
  by code_simp

lemma number_8533_not_mean: "js_number (8533 / 100) \<noteq> (85 + 85 + 86) / 3"
  by code_simp

lemma to_double_tenth: "to_double (1 / 10) = 3602879701896397 / 36028797018963968"
  by code_simp

text \<open>
  Claim C6, as stated, fails: the final average is rounded to two decimals.  A pupil
  with the quarterly averages 85, 85 and 86 gets the number 85.33, which is not their
  mean 256/3.
\<close>

theorem final_average_is_rounded:
  "map (calculatePupilQuarterlyAverage three_quarters_database ''p1'') [1, 2, 3, 4]
     = [Some 85, Some 85, Some 86, None]
   \<and> final_avg (pupil_averages three_quarters_database example_pupil)
       = Some (js_number (8533 / 100))
   \<and> final_avg (pupil_averages three_quarters_database example_pupil)
       \<noteq> Some ((85 + 85 + 86) / 3)"
  using three_quarters_averages three_quarters_final number_8533_not_mean
  by (simp del: list.map)

text \<open>
  Claim C6, amended.  The quarterly averages of a pupil's row are those of
  \<open>calculatePupilQuarterlyAverage\<close>.  The final average is null when no quarter has
  grades; otherwise it is the quotient of the sum of the non-null quarterly averages
  alone by their number (quarters without grades are not in the divisor), computed in
  double arithmetic and rounded by \<open>Math.round(x * 100) / 100\<close>, whenever that quotient
  is not 0.  A pupil with grades only in the first and third quarter gets the sum of
  those two averages divided by 2 and so rounded.  With pupils on the page,
  \<open>calculateClassAverages\<close> computes one such row for each pupil.
\<close>

theorem pupil_final_average:
  "let avgs = map (calculatePupilQuarterlyAverage db (pu_id pupil)) [1, 2, 3, 4];
       valid = map the (filter (\<lambda>avg. avg \<noteq> None) avgs);
       row = pupil_averages db pupil
   in [q1_avg row, q2_avg row, q3_avg row, q4_avg row] = avgs
      \<and> (valid = [] \<longrightarrow> final_avg row = None)
      \<and> (valid \<noteq> [] \<and> js_div (foldl js_add 0 valid) (of_nat (length valid)) \<noteq> 0 \<longrightarrow>
            final_avg row
              = Some (round2 (js_div (foldl js_add 0 valid) (of_nat (length valid)))))
      \<and> (avgs = [Some a1, None, Some a3, None] \<and> js_div (js_add (js_add 0 a1) a3) 2 \<noteq> 0 \<longrightarrow>
            final_avg row = Some (round2 (js_div (js_add (js_add 0 a1) a3) 2)))
      \<and> (gp_pupils pg \<noteq> [] \<longrightarrow>
            calculateClassAverages pg db old = map (pupil_averages db) (gp_pupils pg))"
proof -
  let ?avgs = "map (calculatePupilQuarterlyAverage db (pu_id pupil)) [1, 2, 3, 4]"
  let ?valid = "map the (filter (\<lambda>avg. avg \<noteq> None) ?avgs)"
  let ?row = "pupil_averages db pupil"
  let ?quotient = "js_div (foldl js_add 0 ?valid) (of_nat (length ?valid))"
  have quarters: "[q1_avg ?row, q2_avg ?row, q3_avg ?row, q4_avg ?row] = ?avgs"
    by (rule pupil_averages_quarters)
  have final: "final_avg ?row =
      (if ?valid = [] then None
       else if ?quotient = 0 then None
       else Some (round2 ?quotient))"
    using pupil_averages_final [of db pupil] by (simp only: Let_def)
  have none: "final_avg ?row = None" if "?valid = []"
    using final that by simp
  have some: "final_avg ?row = Some (round2 ?quotient)"
    if "?valid \<noteq> []" "?quotient \<noteq> 0"
    using final that by simp
  have q13: "final_avg ?row = Some (round2 (js_div (js_add (js_add 0 a1) a3) 2))"
    if "?avgs = [Some a1, None, Some a3, None]" "js_div (js_add (js_add 0 a1) a3) 2 \<noteq> 0"
  proof -
    have v: "?valid = [a1, a3]" by (simp only: that(1)) simp
    show ?thesis using final that(2) by (simp only: v) simp
  qed
  have all: "calculateClassAverages pg db old = map (pupil_averages db) (gp_pupils pg)"
    if "gp_pupils pg \<noteq> []"
    using that by (simp add: calculateClassAverages_def)
  show ?thesis
    unfolding Let_def
  proof (intro conjI impI, goal_cases)
    case 1
    show ?case by (rule quarters)
  next
    case 2
    then show ?case by (rule none)
  next
    case 3
    then show ?case using some by simp
  next
    case 4
    then show ?case using q13 by simp
  next
    case 5
    then show ?case by (rule all)
  qed
qed

lemma two_quarters_averages:
  "map (calculatePupilQuarterlyAverage two_quarters_database (pu_id example_pupil)) [1, 2, 3, 4]
     = [Some 80, None, Some (js_number (8033 / 100)), None]"
  by code_simp

lemma two_quarters_quotient:
  "js_div (js_add (js_add 0 80) (js_number (8033 / 100))) 2 \<noteq> 0
   \<and> round2 (js_div (js_add (js_add 0 80) (js_number (8033 / 100))) 2) = js_number (8016 / 100)"
  by code_simp

theorem pupil_final_average_witness:
  "map (calculatePupilQuarterlyAverage two_quarters_database (pu_id example_pupil)) [1, 2, 3, 4]
     = [Some 80, None, Some (js_number (8033 / 100)), None]
   \<and> js_div (js_add (js_add 0 80) (js_number (8033 / 100))) 2 \<noteq> 0
   \<and> final_avg (pupil_averages two_quarters_database example_pupil)
       = Some (js_number (8016 / 100))
   \<and> calculateClassAverages (example_grades_page\<lparr> gp_pupils := [example_pupil] \<rparr>)
        two_quarters_database []
       = [pupil_averages two_quarters_database example_pupil]"
proof -
  note t = pupil_final_average [of two_quarters_database example_pupil 80
      "js_number (8033 / 100)" "example_grades_page\<lparr> gp_pupils := [example_pupil] \<rparr>" "[]",
      unfolded Let_def]
  have a: "map (calculatePupilQuarterlyAverage two_quarters_database (pu_id example_pupil))
      [1, 2, 3, 4] = [Some 80, None, Some (js_number (8033 / 100)), None]"
    by (rule two_quarters_averages)
  have q: "js_div (js_add (js_add 0 80) (js_number (8033 / 100))) 2 \<noteq> 0"
    using two_quarters_quotient by (rule conjunct1)
  have r: "round2 (js_div (js_add (js_add 0 80) (js_number (8033 / 100))) 2)
      = js_number (8016 / 100)"
    using two_quarters_quotient by (rule conjunct2)
  have "final_avg (pupil_averages two_quarters_database example_pupil)
      = Some (round2 (js_div (js_add (js_add 0 80) (js_number (8033 / 100))) 2))"
    by (rule mp [OF t [THEN conjunct2, THEN conjunct2, THEN conjunct2, THEN conjunct1]
          conjI [OF a q]])
  then have f: "final_avg (pupil_averages two_quarters_database example_pupil)
      = Some (js_number (8016 / 100))"
    by (simp only: r)
  have p: "gp_pupils (example_grades_page\<lparr> gp_pupils := [example_pupil] \<rparr>) \<noteq> []"
    by simp
  have "calculateClassAverages (example_grades_page\<lparr> gp_pupils := [example_pupil] \<rparr>)
        two_quarters_database []
      = map (pupil_averages two_quarters_database)
          (gp_pupils (example_grades_page\<lparr> gp_pupils := [example_pupil] \<rparr>))"
    by (rule mp [OF t [THEN conjunct2, THEN conjunct2, THEN conjunct2, THEN conjunct2] p])
  then have c: "calculateClassAverages (example_grades_page\<lparr> gp_pupils := [example_pupil] \<rparr>)
        two_quarters_database [] = [pupil_averages two_quarters_database example_pupil]"
    by simp
  show ?thesis
    using a q f c by (intro conjI)
qed

section \<open>The pupils page: promotion of several pupils\<close>

text \<open>
  Claim C9, as stated, fails: with five pupils selected of which one has an id the
  store refuses, \<open>handlePromotePupils\<close> shows the error and none of the other four
  pupils is moved to the new grade and section.
\<close>

theorem handlePromotePupils_all_or_nothing:
  "handlePromotePupils example_promotion example_store five_pupils_database
     = (toast_error ''invalid input syntax for type uuid'', five_pupils_database)
   \<and> map (\<lambda>r. (pu_id r, pu_grade_level r, pu_section r))
         (pupils_table (snd (handlePromotePupils example_promotion example_store
            five_pupils_database)))
       = [(''p1'', 3, ''A''), (''p2'', 3, ''A''), (''p3'', 3, ''A''), (''p4'', 3, ''A''),
          (''p5'', 3, ''A'')]"
  by (simp add: handlePromotePupils_def update_pupils_in_def example_promotion_def
      example_store_def five_pupils_database_def empty_database_def pupil_of_def or_else_def
      Let_def)

text \<open>
  Claim C9, amended.  With a destination grade, a section and pupils selected,
  \<open>handlePromotePupils\<close> updates the selected pupils in one statement, so their updates
  are not independent.  When the store refuses the statement because of one of the
  ids, the error is shown and no pupil is changed.  When it refuses none of the ids,
  every selected pupil has the new grade level and section, and the other pupils are
  as before.
\<close>

theorem handlePromotePupils_one_statement:
  assumes "promotionToGrade pg = Some g" and "g \<noteq> 0" and "promotionToSection pg \<noteq> []"
    and "selectedPupilsForPromotion pg \<noteq> []"
  shows "(list_ex (refused_id env) (selectedPupilsForPromotion pg) \<longrightarrow>
            fst (handlePromotePupils pg env db)
              = toast_error ''invalid input syntax for type uuid''
            \<and> pupils_table (snd (handlePromotePupils pg env db)) = pupils_table db)
         \<and> (\<not> list_ex (refused_id env) (selectedPupilsForPromotion pg) \<longrightarrow>
            pupils_table (snd (handlePromotePupils pg env db))
              = map (\<lambda>r. if pu_id r \<in> set (selectedPupilsForPromotion pg)
                         then r\<lparr> pu_grade_level := g, pu_section := promotionToSection pg \<rparr>
                         else r) (pupils_table db))"
proof -
  have guard: "\<not> (promotionToGrade pg = None \<or> promotionToGrade pg = Some 0
      \<or> promotionToSection pg = [] \<or> length (selectedPupilsForPromotion pg) = 0)"
    using assms by simp
  have refused: "handlePromotePupils pg env db
              = (toast_error ''invalid input syntax for type uuid'', db)"
    if "list_ex (refused_id env) (selectedPupilsForPromotion pg)"
    using that guard
    by (simp add: handlePromotePupils_def update_pupils_in_def or_else_def Let_def)
  have accepted: "pupils_table (snd (handlePromotePupils pg env db))
              = map (\<lambda>r. if pu_id r \<in> set (selectedPupilsForPromotion pg)
                         then r\<lparr> pu_grade_level := g, pu_section := promotionToSection pg \<rparr>
                         else r) (pupils_table db)"
    if "\<not> list_ex (refused_id env) (selectedPupilsForPromotion pg)"
    using that guard assms(1)
    by (simp add: handlePromotePupils_def update_pupils_in_def Let_def)
  show ?thesis
    using refused accepted by simp
qed

theorem handlePromotePupils_one_statement_witness:
  "map (\<lambda>r. (pu_id r, pu_grade_level r, pu_section r))
     (pupils_table (snd (handlePromotePupils
        (example_promotion\<lparr> selectedPupilsForPromotion := [''p1'', ''p2'', ''p3'', ''p4''] \<rparr>)
        example_store five_pupils_database)))
     = [(''p1'', 4, ''B''), (''p2'', 4, ''B''), (''p3'', 4, ''B''), (''p4'', 4, ''B''),
        (''p5'', 3, ''A'')]
   \<and> fst (handlePromotePupils example_promotion example_store five_pupils_database)
       = toast_error ''invalid input syntax for type uuid''
   \<and> pupils_table (snd (handlePromotePupils example_promotion example_store
        five_pupils_database)) = pupils_table five_pupils_database"
  using handlePromotePupils_one_statement [of
      "example_promotion\<lparr> selectedPupilsForPromotion := [''p1'', ''p2'', ''p3'', ''p4''] \<rparr>" 4
      example_store five_pupils_database]
    handlePromotePupils_one_statement [of example_promotion 4
      example_store five_pupils_database]
  by (simp add: handlePromotePupils_def update_pupils_in_def
      example_promotion_def example_store_def five_pupils_database_def empty_database_def
      pupil_of_def or_else_def Let_def)

lemma promoteStudent_one_pupil:
  "fst (promoteStudent env i fromGrade toGrade toSection promotedBy db)
   \<and> (refused_id env i \<longrightarrow>
        pupils_table (snd (promoteStudent env i fromGrade toGrade toSection promotedBy db))
          = pupils_table db)
   \<and> (\<not> refused_id env i \<and> toGrade \<noteq> 7 \<longrightarrow>
        pupils_table (snd (promoteStudent env i fromGrade toGrade toSection promotedBy db))
          = map (\<lambda>r. if pu_id r = i
                     then r\<lparr> pu_grade_level := toGrade, pu_section := toSection \<rparr>
                     else r) (pupils_table db))"
  by (simp add: promoteStudent_def update_pupils_in_def logAuditEvent_def Let_def)

section \<open>The users page: approval when an account exists\<close>

lemma approve_user_registration_open:
  assumes "find (\<lambda>x. rg_id x = i) (user_registrations db) = Some r"
    and "rg_status r = pending \<or> rg_status r = under_review"
  shows "approve_user_registration i admin_id db =
     (approve_ok (list_ex (\<lambda>a. ac_email a = rg_email r) (users db)) r,
      db\<lparr> user_registrations :=
            map (\<lambda>x. if rg_id x = i then x\<lparr> rg_status := approved \<rparr> else x)
              (user_registrations db) \<rparr>)"
  using assms by (auto simp add: approve_user_registration_def)

text \<open>
  Claim C2.  An admin is signed in and approves a registration that the first step
  accepts (it exists and is pending or under review), and an Account already exists
  for its e-mail address.  Then the procedure answers \<open>already_exists\<close> true, the
  handler shows success, the table of accounts is exactly as before (no second
  Account), the identity provider has got no \<open>signUp\<close> request and holds no new
  credential; so where there was one Account for the address, there is one.
\<close>

theorem approve_existing_account:
  assumes "current_user env = Some admin_id" and "rpc_error env = None"
    and "find (\<lambda>x. rg_id x = rg_id registration) (user_registrations db) = Some r"
    and "rg_status r = pending \<or> rg_status r = under_review"
    and "list_ex (\<lambda>a. ac_email a = rg_email r) (users db)"
  shows "fst (approve_user_registration (rg_id registration) admin_id db) = approve_ok True r
     \<and> fst (handleApproveRegistration registration env db)
         = toast_success ''Registration approved! Please check email for confirmation.''
     \<and> users (snd (handleApproveRegistration registration env db)) = users db
     \<and> auth_users (snd (handleApproveRegistration registration env db)) = auth_users db
     \<and> signUp_requests (snd (handleApproveRegistration registration env db))
         = signUp_requests db
     \<and> length (filter (\<lambda>a. ac_email a = rg_email r)
                 (users (snd (handleApproveRegistration registration env db))))
         = length (filter (\<lambda>a. ac_email a = rg_email r) (users db))"
proof -
  let ?db1 = "db\<lparr> user_registrations :=
            map (\<lambda>x. if rg_id x = rg_id registration then x\<lparr> rg_status := approved \<rparr> else x)
              (user_registrations db) \<rparr>"
  have rpc: "approve_user_registration (rg_id registration) admin_id db = (approve_ok True r, ?db1)"
    using approve_user_registration_open [OF assms(3,4), of admin_id] assms(5) by simp
  have tried: "approve_try (rg_id registration) admin_id env db = (Inr (), ?db1)"
    by (simp add: approve_try_def assms(2) rpc)
  have handler: "handleApproveRegistration registration env db
      = (toast_success ''Registration approved! Please check email for confirmation.'', ?db1)"
    by (simp add: handleApproveRegistration_def assms(1) tried)
  show ?thesis
    by (simp add: rpc handler)
qed

theorem approve_existing_account_witness:
  "length (filter (\<lambda>a. ac_email a = ''ana@example.org'')
     (users (snd (handleApproveRegistration (registration_of ''r1'') example_approval
        two_registrations)))) = 1
   \<and> fst (handleApproveRegistration (registration_of ''r2'') example_approval
        (snd (handleApproveRegistration (registration_of ''r1'') example_approval
           two_registrations)))
       = toast_success ''Registration approved! Please check email for confirmation.''
   \<and> length (filter (\<lambda>a. ac_email a = ''ana@example.org'')
       (users (snd (handleApproveRegistration (registration_of ''r2'') example_approval
          (snd (handleApproveRegistration (registration_of ''r1'') example_approval
             two_registrations)))))) = 1
   \<and> signUp_requests (snd (handleApproveRegistration (registration_of ''r2'') example_approval
          (snd (handleApproveRegistration (registration_of ''r1'') example_approval
             two_registrations)))) = [''ana@example.org'']"
  using approve_existing_account [of example_approval "''admin1''" "registration_of ''r2''"
      "snd (handleApproveRegistration (registration_of ''r1'') example_approval
             two_registrations)" "registration_of ''r2''"]
  by (simp add: handleApproveRegistration_def approve_try_def approve_user_registration_def
      create_user_profile_after_auth_def example_approval_def two_registrations_def
      registration_of_def Let_def)

section \<open>The users page: approval when the identity provider fails\<close>

lemma revert_after_approve:
  "map ((\<lambda>r. if rg_id r = i then r\<lparr> rg_status := pending \<rparr> else r)
        \<circ> (\<lambda>x. if rg_id x = i then x\<lparr> rg_status := approved \<rparr> else x)) rs
     = map (\<lambda>r. if rg_id r = i then r\<lparr> rg_status := pending \<rparr> else r) rs"
  by (induction rs) simp_all

lemma approve_try_signUp_error:
  assumes "rpc_error env = None"
    and "find (\<lambda>x. rg_id x = i) (user_registrations db) = Some r"
    and "rg_status r = pending \<or> rg_status r = under_review"
    and "\<not> list_ex (\<lambda>a. ac_email a = rg_email r) (users db)"
    and "signUp_result env = signUp_error message"
  shows "approve_try i admin_id env db =
     (Inl (''Failed to create user account: '' @ message),
      db\<lparr> signUp_requests := signUp_requests db @ [rg_email r],
          user_registrations :=
            map (\<lambda>x. if rg_id x = i then x\<lparr> rg_status := pending \<rparr> else x)
              (user_registrations db) \<rparr>)"
  using assms(1,4,5)
  by (simp add: approve_try_def approve_user_registration_open [OF assms(2,3)] Let_def
      revert_after_approve)

text \<open>
  Claim C3 at failing inputs, on the registration \<open>r1\<close> with no account for its
  address.  When \<open>signUp\<close> returns an error, the status is set back to \<open>pending\<close> and the
  error is shown.  When \<open>signUp\<close> returns neither an error nor a user, the handler
  shows that the account could not be created, but the status stays \<open>approved\<close>, with
  no credential.  When the error message of \<open>signUp\<close> contains \<open>already exists\<close>, the
  status is set back to \<open>pending\<close> and the handler shows the approval as a success.
\<close>

theorem approve_failure_left_approved:
  "handleApproveRegistration (registration_of ''r1'')
      (example_approval\<lparr> signUp_result := signUp_error ''Email rate limit exceeded'' \<rparr>)
      two_registrations
     = (toast_error ''Failed to create user account: Email rate limit exceeded'',
        two_registrations\<lparr> signUp_requests := [''ana@example.org''] \<rparr>)
   \<and> fst (handleApproveRegistration (registration_of ''r1'')
        (example_approval\<lparr> signUp_result := signUp_no_user \<rparr>) two_registrations)
       = toast_error ''Failed to create user account''
   \<and> map (\<lambda>r. (rg_id r, rg_status r)) (user_registrations (snd
        (handleApproveRegistration (registration_of ''r1'')
           (example_approval\<lparr> signUp_result := signUp_no_user \<rparr>) two_registrations)))
       = [(''r1'', approved), (''r2'', pending)]
   \<and> auth_users (snd (handleApproveRegistration (registration_of ''r1'')
        (example_approval\<lparr> signUp_result := signUp_no_user \<rparr>) two_registrations)) = []
   \<and> handleApproveRegistration (registration_of ''r1'')
        (example_approval\<lparr> signUp_result := signUp_error ''User already exists'' \<rparr>)
        two_registrations
       = (toast_success ''Registration approved! Please check email for confirmation.'',
          two_registrations\<lparr> signUp_requests := [''ana@example.org''] \<rparr>)"
  by (simp add: handleApproveRegistration_def approve_try_def approve_user_registration_def
      approve_catch_def or_else_def example_approval_def two_registrations_def
      registration_of_def Let_def)

end
